theory Spec2Isabelle
  imports Complex_Main
begin

section \<open>Numbers and dates of the source language\<close>

text \<open>
  Amounts are JavaScript numbers. They are modelled as real numbers; the only place where
  the source can leave the finite numbers is the division in \<open>getSavingsPercentage\<close>, so
  the result of that function is a \<open>jsnum\<close>, which keeps \<open>NaN\<close> and the infinities apart
  from the finite values. A date field holds a string that \<open>new Date\<close> parses: it is absent
  (falsy), present but not a date, or an instant in milliseconds.
\<close>

datatype jsnum = Num real | NaN | PosInfinity | NegInfinity

definition js_div :: "real \<Rightarrow> real \<Rightarrow> jsnum" where
  "js_div a b =
     (if b = 0 then (if a = 0 then NaN else if 0 < a then PosInfinity else NegInfinity)
      else Num (a / b))"

fun js_times :: "jsnum \<Rightarrow> real \<Rightarrow> jsnum" where
  "js_times (Num x) k = Num (x * k)"
| "js_times NaN k = NaN"
| "js_times PosInfinity k = (if k = 0 then NaN else if 0 < k then PosInfinity else NegInfinity)"
| "js_times NegInfinity k = (if k = 0 then NaN else if 0 < k then NegInfinity else PosInfinity)"

fun Math_round :: "jsnum \<Rightarrow> jsnum" where
  "Math_round (Num x) = Num (of_int \<lfloor>x + 1 / 2\<rfloor>)"
| "Math_round NaN = NaN"
| "Math_round PosInfinity = PosInfinity"
| "Math_round NegInfinity = NegInfinity"

datatype js_date = NoDate | InvalidDate | Instant int

text \<open>\<open>now < new Date(d)\<close> and \<open>now > new Date(d)\<close>: a comparison with an invalid date is false.\<close>

fun now_before :: "int \<Rightarrow> js_date \<Rightarrow> bool" where
  "now_before now (Instant t) = (now < t)"
| "now_before now _ = False"

fun now_after :: "int \<Rightarrow> js_date \<Rightarrow> bool" where
  "now_after now (Instant t) = (t < now)"
| "now_after now _ = False"

text \<open>Truthiness of an optional number: \<open>undefined\<close> and \<open>0\<close> are falsy.\<close>

fun truthy_num :: "real option \<Rightarrow> bool" where
  "truthy_num None = False"
| "truthy_num (Some v) = (v \<noteq> 0)"

text \<open>\<open>x || 0\<close> on an optional number.\<close>

fun or0 :: "real option \<Rightarrow> real" where
  "or0 None = 0"
| "or0 (Some v) = v"

section \<open>Offer and discount evaluation\<close>

datatype discount_type = percentage | fixed

record FoodItem =
  item_id :: string
  item_name :: string
  price :: real
  isOnOffer :: bool
  discountType :: "discount_type option"
  discountValue :: "real option"
  offerStartDate :: js_date
  offerEndDate :: js_date

text \<open>The source reads the clock with \<open>new Date()\<close>; here the instant is the argument \<open>now\<close>.\<close>

definition isOfferActive :: "FoodItem \<Rightarrow> int \<Rightarrow> bool" where
  "isOfferActive item now =
     (if \<not> isOnOffer item \<or> \<not> truthy_num (discountValue item) \<or> or0 (discountValue item) \<le> 0
      then False
      else if offerStartDate item \<noteq> NoDate \<and> now_before now (offerStartDate item) then False
      else if offerEndDate item \<noteq> NoDate \<and> now_after now (offerEndDate item) then False
      else True)"

definition getEffectivePrice :: "FoodItem \<Rightarrow> int \<Rightarrow> real" where
  "getEffectivePrice item now =
     (if \<not> isOfferActive item now then price item
      else if discountType item = Some percentage \<and> truthy_num (discountValue item)
      then (let discountAmount = (price item * or0 (discountValue item)) / 100
            in max 0 (price item - discountAmount))
      else if discountType item = Some fixed \<and> truthy_num (discountValue item)
      then max 0 (price item - or0 (discountValue item))
      else price item)"

definition getSavingsAmount :: "FoodItem \<Rightarrow> int \<Rightarrow> real" where
  "getSavingsAmount item now =
     (if \<not> isOfferActive item now then 0 else price item - getEffectivePrice item now)"

definition getSavingsPercentage :: "FoodItem \<Rightarrow> int \<Rightarrow> jsnum" where
  "getSavingsPercentage item now =
     (if \<not> isOfferActive item now then Num 0
      else (let savings = getSavingsAmount item now
            in Math_round (js_times (js_div savings (price item)) 100)))"

section \<open>Store pricing policy\<close>

datatype service_type = delivery | pickup

text \<open>
  A numeric field of the configuration as the function meets it: missing (\<open>undefined\<close>),
  \<open>null\<close>, or a number. The default of a destructuring pattern replaces \<open>undefined\<close> only.
  In a comparison \<open>null\<close> counts as 0 and \<open>undefined\<close> as \<open>NaN\<close>.
\<close>

datatype js_number = Undefined | JsNull | Number real

fun default0 :: "js_number \<Rightarrow> js_number" where
  "default0 Undefined = Number 0"
| "default0 v = v"

fun js_greater0 :: "js_number \<Rightarrow> bool" where
  "js_greater0 (Number x) = (0 < x)"
| "js_greater0 JsNull = False"
| "js_greater0 Undefined = False"

fun js_at_least :: "real \<Rightarrow> js_number \<Rightarrow> bool" where
  "js_at_least a (Number x) = (x \<le> a)"
| "js_at_least a JsNull = (0 \<le> a)"
| "js_at_least a Undefined = False"

record ServiceOptions =
  enableDelivery :: "bool option"
  enablePickup :: "bool option"
  deliveryFee :: js_number
  freeDeliveryThreshold :: js_number

record StoreConfig =
  taxRate :: "real option"
  minOrderAmount :: real
  serviceOptions :: "ServiceOptions option"

definition defaultConfig :: StoreConfig where
  "defaultConfig =
     \<lparr> taxRate = Some 0, minOrderAmount = 5,
       serviceOptions = Some \<lparr> enableDelivery = Some True, enablePickup = Some True,
                               deliveryFee = Number 1, freeDeliveryThreshold = Number 50 \<rparr> \<rparr>"

text \<open>\<open>config || defaultConfig\<close>\<close>

fun config_or_default :: "StoreConfig option \<Rightarrow> StoreConfig" where
  "config_or_default None = defaultConfig"
| "config_or_default (Some c) = c"

text \<open>\<open>storeConfig.serviceOptions?.enableDelivery ?? true\<close>\<close>

definition isDeliveryEnabled :: "StoreConfig option \<Rightarrow> bool" where
  "isDeliveryEnabled config =
     (let storeConfig = config_or_default config
      in case serviceOptions storeConfig of
           None \<Rightarrow> True
         | Some so \<Rightarrow> (case enableDelivery so of None \<Rightarrow> True | Some b \<Rightarrow> b))"

text \<open>
  \<open>const { deliveryFee = 0, freeDeliveryThreshold = 0 } = serviceOptions || {}\<close>, then the
  two tests and the three \<open>return\<close>s. The parameter \<open>serviceType\<close> defaults to delivery when
  the caller leaves it out. The last \<open>return\<close> hands back the field as it is, so the result
  is a \<open>js_number\<close>.
\<close>

definition calculateDeliveryFee ::
    "real \<Rightarrow> service_type option \<Rightarrow> StoreConfig option \<Rightarrow> js_number" where
  "calculateDeliveryFee orderAmount serviceType config =
     (let storeConfig = config_or_default config;
          fee = (case serviceOptions storeConfig of
                   None \<Rightarrow> Number 0 | Some so \<Rightarrow> default0 (deliveryFee so));
          threshold = (case serviceOptions storeConfig of
                         None \<Rightarrow> Number 0 | Some so \<Rightarrow> default0 (freeDeliveryThreshold so));
          st = (case serviceType of None \<Rightarrow> delivery | Some s \<Rightarrow> s)
      in if st = pickup \<or> \<not> isDeliveryEnabled (Some storeConfig) then Number 0
         else if js_greater0 threshold \<and> js_at_least orderAmount threshold then Number 0
         else fee)"

definition calculateTax :: "real \<Rightarrow> StoreConfig option \<Rightarrow> real" where
  "calculateTax amount config = (amount * or0 (taxRate (config_or_default config))) / 100"

section \<open>Collections\<close>

text \<open>
  The documents of the three collections the handlers touch. Field names follow the
  collection configurations. Isabelle has one name space for the fields of all records, so
  a name that several documents share carries the document as a prefix: \<open>id\<close> is
  \<open>item_id\<close>, \<open>customer_id\<close>, \<open>order_id\<close> and (on a cart line) \<open>cart_id\<close>; the fields
  \<open>customer\<close>, \<open>items\<close>, \<open>bookingDate\<close>, \<open>customerNotes\<close>, \<open>serviceType\<close> and
  \<open>deliveryAddress\<close> of an order are \<open>order_customer\<close>, \<open>order_items\<close> and so on; the
  \<open>price\<close> of an order line is \<open>unit_price\<close>, the \<open>phone\<close> of an address \<open>addr_phone\<close>.

  A text field that is missing and one that is empty are both falsy in the handlers, so
  both are the empty string here. The aggregate counters of a customer are optional
  numbers, read by the handler as \<open>x || 0\<close>. A collection is the list of its documents
  in the order in which \<open>payload.find\<close> returns them, so that \<open>docs[0]\<close> is the first
  match in the list.
\<close>

datatype order_status =
  pending | confirmed | preparing | ready_for_pickup | out_for_delivery | completed | cancelled

datatype payment_status = payment_pending | paid | failed | refunded

record Address =
  street :: string
  area :: string
  city :: string
  postalCode :: string
  addr_phone :: string

record OrderItem =
  foodItem :: string
  quantity :: real
  unit_price :: real
  subtotal :: real

record Order =
  order_id :: string
  orderNumber :: string
  order_customer :: string
  order_items :: "OrderItem list"
  totalAmount :: real
  status :: order_status
  order_bookingDate :: int
  order_customerNotes :: string
  order_serviceType :: service_type
  paymentStatus :: payment_status
  order_deliveryAddress :: "Address option"

record Customer =
  customer_id :: string
  email :: string
  firstName :: string
  lastName :: string
  phone :: string
  isActive :: bool
  defaultAddress :: "Address option"
  totalOrders :: "real option"
  totalSpent :: "real option"
  loyaltyPoints :: "real option"
  lastOrderDate :: "int option"

record Database =
  customers :: "Customer list"
  products :: "FoodItem list"
  orders :: "Order list"

text \<open>
  The data store is an external collaborator. What one request observes of it beyond the
  documents is collected in a \<open>PayloadRun\<close>: the two clock readings of the checkout handler,
  whether \<open>findByID\<close> throws or yields \<open>null\<close> for an unknown id (the handler has a branch
  for each), whether the store rejects a write (validation of the collection outside the
  handler, uniqueness, authentication, a failure of the store: the handler catches the
  exception), the token a login yields if it yields one, and the identifiers the store
  assigns to new documents. A rejected write leaves the collection as it was.
\<close>

record PayloadRun =
  clock_booking :: int
  clock_stats :: int
  missingProductThrows :: bool
  customerWriteRejected :: bool
  orderCreateRejected :: bool
  statsUpdateRejected :: bool
  loginToken :: "string option"
  newCustomerId :: string
  newOrderId :: string
  newOrderNumber :: string

datatype lookup = Doc FoodItem | Null | Throws

definition findByID :: "PayloadRun \<Rightarrow> Database \<Rightarrow> string \<Rightarrow> lookup" where
  "findByID run db i =
     (case find (\<lambda>p. item_id p = i) (products db) of
        Some p \<Rightarrow> Doc p
      | None \<Rightarrow> if missingProductThrows run then Throws else Null)"

definition find_customers_by_email :: "Database \<Rightarrow> string \<Rightarrow> Customer list" where
  "find_customers_by_email db e = filter (\<lambda>c. email c = e) (customers db)"

definition update_customer :: "string \<Rightarrow> (Customer \<Rightarrow> Customer) \<Rightarrow> Database \<Rightarrow> Database" where
  "update_customer cid f db =
     db\<lparr>customers := map (\<lambda>c. if customer_id c = cid then f c else c) (customers db)\<rparr>"

definition update_order :: "string \<Rightarrow> (Order \<Rightarrow> Order) \<Rightarrow> Database \<Rightarrow> Database" where
  "update_order oid f db =
     db\<lparr>orders := map (\<lambda>ord. if order_id ord = oid then f ord else ord) (orders db)\<rparr>"

text \<open>
  The constraints the Orders collection declares on the lines of an order: at least one row
  (\<open>minRows: 1\<close>) and a quantity of at least 1 on every row (\<open>min: 1\<close>). A document that
  breaks them is rejected by \<open>payload.create\<close>; every other reason for a rejection (among
  them the validator of \<open>bookingDate\<close>, which the store runs with a clock reading of its
  own, later than the handler's) is the outcome \<open>orderCreateRejected\<close>.
\<close>

definition Orders_validate :: "Order \<Rightarrow> bool" where
  "Orders_validate ord =
     (order_items ord \<noteq> [] \<and> list_all (\<lambda>line. 1 \<le> quantity line) (order_items ord))"

section \<open>Order cancellation\<close>

text \<open>
  The body of \<open>POST /api/orders/cancel\<close> (\<open>orderNumber\<close>, \<open>customerId\<close>, \<open>reason\<close>), one
  constructor for each \<open>return\<close> of the handler, and the classes of failure of the
  specification.
\<close>

record CancelRequest =
  cancel_orderNumber :: string
  cancel_customerId :: string
  reason :: string

datatype cancel_response =
    MissingOrderOrCustomer
  | OrderNotFound
  | CannotCancel order_status
  | FailedToCancel
  | Cancelled Order

datatype error_kind =
    ValidationError | CustomerError | ItemError | SchedulingError
  | InvalidStateError | NotFoundError | InternalError

fun cancel_error_class :: "cancel_response \<Rightarrow> error_kind option" where
  "cancel_error_class MissingOrderOrCustomer = Some ValidationError"
| "cancel_error_class OrderNotFound = Some NotFoundError"
| "cancel_error_class (CannotCancel s) = Some InvalidStateError"
| "cancel_error_class FailedToCancel = Some InternalError"
| "cancel_error_class (Cancelled ord) = None"

text \<open>\<open>payload.find\<close> on orders with both conditions and \<open>limit: 1\<close>.\<close>

definition find_order :: "Database \<Rightarrow> string \<Rightarrow> string \<Rightarrow> Order option" where
  "find_order db num cid =
     find (\<lambda>ord. orderNumber ord = num \<and> order_customer ord = cid) (orders db)"

definition cancelled_notes :: "string \<Rightarrow> string \<Rightarrow> string" where
  "cancelled_notes notes r =
     (if r \<noteq> []
      then (if notes \<noteq> [] then notes @ '' | '' else []) @ ''CANCELLED: '' @ r
      else (if notes \<noteq> [] then notes @ '' | '' else []) @ ''CANCELLED by customer'')"

text \<open>
  The \<open>validate\<close> function of the field \<open>bookingDate\<close> of the Orders collection, for a stored
  instant \<open>t\<close> and the clock reading \<open>now\<close> of the validation: the value is accepted when it
  is not less than 24 hours ahead. The store runs the validators of a collection on every
  write of a document, on \<open>payload.update\<close> as on \<open>payload.create\<close>, whether or not the
  write changes the field.
\<close>

definition bookingDate_validate :: "int \<Rightarrow> int \<Rightarrow> bool" where
  "bookingDate_validate now t = (\<not> real_of_int (t - now) / (1000 * 3600) < 24)"

text \<open>
  The handler of \<open>POST /api/orders/cancel\<close>. Its one write is \<open>payload.update\<close> on the
  order: \<open>now\<close> is the clock reading of the validation that write runs, and \<open>updateRejected\<close>
  stands for every other reason for which the store may refuse it. A refused write throws,
  and the handler answers "Failed to cancel order".
\<close>

definition cancelOrder ::
    "int \<Rightarrow> bool \<Rightarrow> Database \<Rightarrow> CancelRequest \<Rightarrow> cancel_response \<times> Database" where
  "cancelOrder now updateRejected db req =
     (if cancel_orderNumber req = [] \<or> cancel_customerId req = [] then (MissingOrderOrCustomer, db)
      else case find_order db (cancel_orderNumber req) (cancel_customerId req) of
             None \<Rightarrow> (OrderNotFound, db)
           | Some ord \<Rightarrow>
               if status ord \<notin> set [pending, confirmed] then (CannotCancel (status ord), db)
               else if updateRejected \<or> \<not> bookingDate_validate now (order_bookingDate ord)
               then (FailedToCancel, db)
               else
                 (let patch = (\<lambda>d. d\<lparr>status := cancelled,
                                       order_customerNotes :=
                                         cancelled_notes (order_customerNotes ord) (reason req)\<rparr>)
                  in (Cancelled (patch ord), update_order (order_id ord) patch db)))"

text \<open>
  The handler of \<open>GET /api/orders/cancel\<close>, which tells the client whether an order can be
  cancelled: the answer is \<open>canCancel\<close>, or \<open>None\<close> when the request is refused (a parameter
  is missing or the order is not found).
\<close>

definition canCancel :: "Database \<Rightarrow> string \<Rightarrow> string \<Rightarrow> bool option" where
  "canCancel db num cid =
     (if num = [] \<or> cid = [] then None
      else case find_order db num cid of
             None \<Rightarrow> None
           | Some ord \<Rightarrow> Some (status ord \<in> set [pending, confirmed]))"

section \<open>Checkout\<close>

text \<open>
  A cart line as the client sends it (\<open>id\<close>, \<open>name\<close>, \<open>quantity\<close>, \<open>price\<close>) and the
  member \<open>customerInfo\<close> of the request (\<open>email\<close>, \<open>password\<close>, \<open>firstName\<close>,
  \<open>lastName\<close>, \<open>phone\<close>).
\<close>

record CartItem =
  cart_id :: string
  cart_name :: string
  cart_quantity :: real
  cart_price :: real

record CustomerInfo =
  info_email :: string
  info_password :: string
  info_firstName :: string
  info_lastName :: string
  info_phone :: string

text \<open>
  The body of \<open>POST /api/checkout\<close>. An absent or \<open>null\<close> member is \<open>None\<close>; an empty array
  of items is \<open>Some []\<close>, which is truthy. \<open>submitted_totalAmount\<close> is the member
  \<open>totalAmount\<close> of the body.
\<close>

record CheckoutRequest =
  items :: "CartItem list option"
  customerInfo :: "CustomerInfo option"
  deliveryAddress :: "Address option"
  serviceType :: "service_type option"
  bookingDate :: js_date
  customerNotes :: string
  submitted_totalAmount :: "real option"

text \<open>One constructor for each \<open>return\<close> of the handler.\<close>

datatype response =
    MissingCheckoutInformation
  | MissingDeliveryAddress
  | PasswordRequired
  | FailedToProcessCustomer
  | ItemMissingID string
  | FoodItemNotFound string
  | FailedToProcessItem string string
  | BookingTooSoon
  | FailedToCreateOrder
  | CheckoutSuccess Order Customer bool "string option"


text \<open>
  The class of each failure in the taxonomy of the specification, which names the class
  with its status: an item error is a 400, and the 500 of the \<open>catch\<close> around an item is
  an internal error.
\<close>

fun error_class :: "response \<Rightarrow> error_kind option" where
  "error_class MissingCheckoutInformation = Some ValidationError"
| "error_class MissingDeliveryAddress = Some ValidationError"
| "error_class PasswordRequired = Some CustomerError"
| "error_class FailedToProcessCustomer = Some CustomerError"
| "error_class (ItemMissingID n) = Some ItemError"
| "error_class (FoodItemNotFound i) = Some ItemError"
| "error_class (FailedToProcessItem n i) = Some InternalError"
| "error_class BookingTooSoon = Some SchedulingError"
| "error_class FailedToCreateOrder = Some InternalError"
| "error_class (CheckoutSuccess ord c isNew token) = None"

text \<open>The address object the handler builds from \<open>deliveryAddress\<close> for a customer.\<close>

definition customer_address :: "Address \<Rightarrow> Address" where
  "customer_address a =
     \<lparr> street = street a, area = area a, city = city a, postalCode = postalCode a,
       addr_phone = addr_phone a \<rparr>"

text \<open>For the order, the phone falls back to the customer's: \<open>deliveryAddress.phone || customerInfo.phone\<close>.\<close>

definition order_address :: "Address \<Rightarrow> CustomerInfo \<Rightarrow> Address" where
  "order_address a info =
     \<lparr> street = street a, area = area a, city = city a, postalCode = postalCode a,
       addr_phone = (if addr_phone a \<noteq> [] then addr_phone a else info_phone info) \<rparr>"

text \<open>
  Step 2, "Create or find customer". The result is the document the store returns, the
  flag \<open>isNewCustomer\<close> and the database after the write.
\<close>

definition resolve_customer ::
    "PayloadRun \<Rightarrow> Database \<Rightarrow> CustomerInfo \<Rightarrow> service_type \<Rightarrow> Address option
       \<Rightarrow> response + (Customer \<times> bool \<times> Database)" where
  "resolve_customer run db info st addr =
     (case find_customers_by_email db (info_email info) of
        existing # others \<Rightarrow>
          (let updateData = (\<lambda>d. d\<lparr>firstName := info_firstName info,
                                      lastName := info_lastName info,
                                      phone := info_phone info\<rparr>);
               updateData' = (case addr of
                                Some a \<Rightarrow> if st = delivery
                                          then (\<lambda>d. (updateData d)\<lparr>defaultAddress := Some (customer_address a)\<rparr>)
                                          else updateData
                              | None \<Rightarrow> updateData)
           in if customerWriteRejected run then Inl FailedToProcessCustomer
              else Inr (updateData' existing, False,
                        update_customer (customer_id existing) updateData' db))
      | [] \<Rightarrow>
          if info_password info = [] then Inl PasswordRequired
          else if customerWriteRejected run then Inl FailedToProcessCustomer
          else
            (let customerData =
                   \<lparr> customer_id = newCustomerId run,
                     email = info_email info,
                     firstName = info_firstName info,
                     lastName = info_lastName info,
                     phone = info_phone info,
                     isActive = True,
                     defaultAddress = (case addr of
                                         Some a \<Rightarrow> if st = delivery then Some (customer_address a) else None
                                       | None \<Rightarrow> None),
                     totalOrders = Some 0,
                     totalSpent = Some 0,
                     loyaltyPoints = Some 0,
                     lastOrderDate = None \<rparr>
             in Inr (customerData, True, db\<lparr>customers := customers db @ [customerData]\<rparr>)))"

text \<open>
  Step 3, the loop over the cart lines, with its two accumulators. The \<open>price\<close> of a cart
  line is never read.
\<close>

fun process_items ::
    "PayloadRun \<Rightarrow> Database \<Rightarrow> CartItem list \<Rightarrow> OrderItem list \<Rightarrow> real
       \<Rightarrow> response + (OrderItem list \<times> real)" where
  "process_items run db [] orderItems calculatedTotal = Inr (orderItems, calculatedTotal)"
| "process_items run db (item # rest) orderItems calculatedTotal =
     (if cart_id item = [] then Inl (ItemMissingID (cart_name item))
      else case findByID run db (cart_id item) of
             Throws \<Rightarrow>
               Inl (FailedToProcessItem
                      (if cart_name item \<noteq> [] then cart_name item else ''Unknown'') (cart_id item))
           | Null \<Rightarrow> Inl (FoodItemNotFound (cart_id item))
           | Doc product \<Rightarrow>
               (let itemSubtotal = price product * cart_quantity item
                in process_items run db rest
                     (orderItems @ [\<lparr> foodItem = item_id product,
                                      quantity = cart_quantity item,
                                      unit_price = price product,
                                      subtotal = itemSubtotal \<rparr>])
                     (calculatedTotal + itemSubtotal)))"

text \<open>
  Step 4. \<open>hoursDiff\<close> is \<open>None\<close> for \<open>NaN\<close>, the difference to an invalid date; the
  comparison \<open>hoursDiff < 24\<close> is then false.
\<close>

fun hoursDiff :: "js_date \<Rightarrow> int \<Rightarrow> real option" where
  "hoursDiff (Instant t) now = Some (real_of_int (t - now) / (1000 * 3600))"
| "hoursDiff InvalidDate now = None"
| "hoursDiff NoDate now = None"

definition booking_too_soon :: "js_date \<Rightarrow> int \<Rightarrow> bool" where
  "booking_too_soon b now = (case hoursDiff b now of None \<Rightarrow> False | Some h \<Rightarrow> h < 24)"

text \<open>
  Steps 5 to 7: the order, the customer statistics, the login. \<open>toISOString\<close> throws on an
  invalid date, inside the \<open>try\<close> that answers "Failed to create order". The statistics are
  computed from the customer document of step 2.
\<close>

definition create_order ::
    "PayloadRun \<Rightarrow> Database \<Rightarrow> CheckoutRequest \<Rightarrow> CustomerInfo \<Rightarrow> service_type \<Rightarrow> Customer \<Rightarrow> bool
       \<Rightarrow> OrderItem list \<Rightarrow> real \<Rightarrow> response \<times> Database" where
  "create_order run db data info st customer isNewCustomer orderItems calculatedTotal =
     (case bookingDate data of
        Instant t \<Rightarrow>
          (let orderData =
                 \<lparr> order_id = newOrderId run,
                   orderNumber = newOrderNumber run,
                   order_customer = customer_id customer,
                   order_items = orderItems,
                   totalAmount = calculatedTotal,
                   status = pending,
                   order_bookingDate = t,
                   order_customerNotes = customerNotes data,
                   order_serviceType = st,
                   paymentStatus = payment_pending,
                   order_deliveryAddress =
                     (case deliveryAddress data of
                        Some a \<Rightarrow> if st = delivery then Some (order_address a info) else None
                      | None \<Rightarrow> None) \<rparr>
           in if orderCreateRejected run \<or> \<not> Orders_validate orderData
              then (FailedToCreateOrder, db)
              else
                (let db2 = db\<lparr>orders := orders db @ [orderData]\<rparr>
                 in if statsUpdateRejected run then (FailedToCreateOrder, db2)
                    else
                      (let stats = (\<lambda>d. d\<lparr>totalOrders := Some (or0 (totalOrders customer) + 1),
                                            totalSpent := Some (or0 (totalSpent customer) + calculatedTotal),
                                            lastOrderDate := Some (clock_stats run),
                                            loyaltyPoints :=
                                              Some (or0 (loyaltyPoints customer)
                                                    + of_int \<lfloor>calculatedTotal\<rfloor>)\<rparr>)
                       in (CheckoutSuccess orderData customer isNewCustomer (loginToken run),
                           update_customer (customer_id customer) stats db2))))
      | _ \<Rightarrow> (FailedToCreateOrder, db))"

text \<open>
  The handler, from the parsed body on (a body that is not JSON is answered by the outer
  \<open>catch\<close>). It returns the response and the database it leaves behind, so that a
  request without side effects is one that returns the database it was given.
\<close>

definition checkout :: "PayloadRun \<Rightarrow> Database \<Rightarrow> CheckoutRequest \<Rightarrow> response \<times> Database" where
  "checkout run db data =
     (case items data of
        None \<Rightarrow> (MissingCheckoutInformation, db)
      | Some cart \<Rightarrow>
     (case customerInfo data of
        None \<Rightarrow> (MissingCheckoutInformation, db)
      | Some info \<Rightarrow>
     (case serviceType data of
        None \<Rightarrow> (MissingCheckoutInformation, db)
      | Some st \<Rightarrow>
          if bookingDate data = NoDate then (MissingCheckoutInformation, db)
          else if st = delivery \<and>
                  (case deliveryAddress data of
                     None \<Rightarrow> True
                   | Some a \<Rightarrow> street a = [] \<or> area a = [])
          then (MissingDeliveryAddress, db)
          else
            (case resolve_customer run db info st (deliveryAddress data) of
               Inl err \<Rightarrow> (err, db)
             | Inr (customer, isNewCustomer, db1) \<Rightarrow>
                 (case process_items run db1 cart [] 0 of
                    Inl err \<Rightarrow> (err, db1)
                  | Inr (orderItems, calculatedTotal) \<Rightarrow>
                      if booking_too_soon (bookingDate data) (clock_booking run)
                      then (BookingTooSoon, db1)
                      else create_order run db1 data info st customer isNewCustomer
                             orderItems calculatedTotal)))))"

section \<open>Vocabulary of the results\<close>

text \<open>
  Predicates and projections in which the results about the checkout are stated; each is
  built from the functions of the handler above.

  \<open>passes_validation\<close> is the conjunction of the two guards at the top of the handler
  (step 1). \<open>reaches_booking_check\<close> says that steps 1 to 3 all pass, so that the handler
  arrives at the lead-time check.
\<close>

definition passes_validation :: "CheckoutRequest \<Rightarrow> bool" where
  "passes_validation data =
     (items data \<noteq> None \<and> customerInfo data \<noteq> None \<and> bookingDate data \<noteq> NoDate \<and>
      serviceType data \<noteq> None \<and>
      \<not> (serviceType data = Some delivery \<and>
         (case deliveryAddress data of None \<Rightarrow> True | Some a \<Rightarrow> street a = [] \<or> area a = [])))"

definition reaches_booking_check :: "PayloadRun \<Rightarrow> Database \<Rightarrow> CheckoutRequest \<Rightarrow> bool" where
  "reaches_booking_check run db data =
     (passes_validation data \<and>
      (case resolve_customer run db (the (customerInfo data)) (the (serviceType data))
              (deliveryAddress data) of
         Inl err \<Rightarrow> False
       | Inr (customer, isNewCustomer, db1) \<Rightarrow>
           (case process_items run db1 (the (items data)) [] 0 of
              Inl err \<Rightarrow> False
            | Inr priced \<Rightarrow> True)))"


text \<open>
  The customer the handler works on is the first document \<open>payload.find\<close> returns for the
  email of the request. \<open>stored_counters\<close> reads the three counters of that document the
  way the handler does (\<open>x || 0\<close>; all 0 when no customer has the email).
\<close>

definition stored_customer :: "Database \<Rightarrow> string \<Rightarrow> Customer option" where
  "stored_customer db e = (case find_customers_by_email db e of [] \<Rightarrow> None | c # others \<Rightarrow> Some c)"

definition aggregates :: "Customer \<Rightarrow> real option \<times> real option \<times> real option \<times> int option" where
  "aggregates c = (totalOrders c, totalSpent c, loyaltyPoints c, lastOrderDate c)"

definition stored_counters :: "Database \<Rightarrow> string \<Rightarrow> real \<times> real \<times> real" where
  "stored_counters db e =
     (case stored_customer db e of
        None \<Rightarrow> (0, 0, 0)
      | Some c \<Rightarrow> (or0 (totalOrders c), or0 (totalSpent c), or0 (loyaltyPoints c)))"

definition stored_totalOrders :: "Database \<Rightarrow> string \<Rightarrow> real" where
  "stored_totalOrders db e = fst (stored_counters db e)"

definition stored_totalSpent :: "Database \<Rightarrow> string \<Rightarrow> real" where
  "stored_totalSpent db e = fst (snd (stored_counters db e))"

definition stored_loyaltyPoints :: "Database \<Rightarrow> string \<Rightarrow> real" where
  "stored_loyaltyPoints db e = snd (snd (stored_counters db e))"

definition stored_lastOrderDate :: "Database \<Rightarrow> string \<Rightarrow> int option" where
  "stored_lastOrderDate db e =
     (case stored_customer db e of None \<Rightarrow> None | Some c \<Rightarrow> lastOrderDate c)"

definition request_email :: "CheckoutRequest \<Rightarrow> string option" where
  "request_email data = map_option info_email (customerInfo data)"

text \<open>What a response says about the order it created, if it created one.\<close>

fun succeeded :: "response \<Rightarrow> bool" where
  "succeeded (CheckoutSuccess ord c isNew token) = True"
| "succeeded r = False"

fun order_total :: "response \<Rightarrow> real" where
  "order_total (CheckoutSuccess ord c isNew token) = totalAmount ord"
| "order_total r = 0"

fun points_awarded :: "response \<Rightarrow> real" where
  "points_awarded (CheckoutSuccess ord c isNew token) = of_int \<lfloor>totalAmount ord\<rfloor>"
| "points_awarded r = 0"

text \<open>
  A sequence of checkout requests served one after the other, each with its own
  observations of the store: the database one request leaves is the one the next finds.
\<close>

fun checkouts :: "Database \<Rightarrow> (PayloadRun \<times> CheckoutRequest) list \<Rightarrow> response list \<times> Database" where
  "checkouts db [] = ([], db)"
| "checkouts db (step # rest) =
     (let (r, db1) = checkout (fst step) db (snd step);
          (rs, db2) = checkouts db1 rest
      in (r # rs, db2))"

section \<open>Sample data\<close>

text \<open>Concrete documents and requests at which the results below are evaluated.\<close>

definition offer_item :: FoodItem where
  "offer_item = \<lparr> item_id = ''p1'', item_name = ''Biryani'', price = 10, isOnOffer = True,
     discountType = Some percentage, discountValue = Some 20,
     offerStartDate = NoDate, offerEndDate = NoDate \<rparr>"

definition threshold_config :: StoreConfig where
  "threshold_config =
     \<lparr> taxRate = Some 5, minOrderAmount = 5,
       serviceOptions = Some \<lparr> enableDelivery = Some True, enablePickup = Some True,
                               deliveryFee = Number 3, freeDeliveryThreshold = Number 20 \<rparr> \<rparr>"

definition example_config :: StoreConfig where
  "example_config =
     \<lparr> taxRate = Some 0, minOrderAmount = 5,
       serviceOptions = Some \<lparr> enableDelivery = Some True, enablePickup = Some True,
                               deliveryFee = Number 1, freeDeliveryThreshold = Number 50 \<rparr> \<rparr>"

definition no_delivery_config :: StoreConfig where
  "no_delivery_config =
     \<lparr> taxRate = Some 0, minOrderAmount = 5,
       serviceOptions = Some \<lparr> enableDelivery = Some False, enablePickup = Some True,
                               deliveryFee = Number 3, freeDeliveryThreshold = Number 20 \<rparr> \<rparr>"

definition sample_order :: Order where
  "sample_order =
     \<lparr> order_id = ''o1'', orderNumber = ''ORD-1'', order_customer = ''c1'',
       order_items = [\<lparr> foodItem = ''p1'', quantity = 2, unit_price = 10, subtotal = 20 \<rparr>],
       totalAmount = 20, status = pending, order_bookingDate = 200000000,
       order_customerNotes = ''no onions'', order_serviceType = pickup,
       paymentStatus = payment_pending, order_deliveryAddress = None \<rparr>"

definition cancel_db :: Database where
  "cancel_db = \<lparr> customers = [], products = [],
                 orders = [sample_order\<lparr>order_id := ''o0'', orderNumber := ''ORD-0'', status := preparing\<rparr>,
                           sample_order] \<rparr>"

definition cancel_request :: CancelRequest where
  "cancel_request = \<lparr> cancel_orderNumber = ''ORD-1'', cancel_customerId = ''c1'', reason = ''late'' \<rparr>"

definition sample_customer :: Customer where
  "sample_customer =
     \<lparr> customer_id = ''c1'', email = ''aisha@example.om'', firstName = ''Aisha'', lastName = ''Said'',
       phone = ''91234567'', isActive = True, defaultAddress = None,
       totalOrders = Some 3, totalSpent = Some 40, loyaltyPoints = Some 38,
       lastOrderDate = Some 1000 \<rparr>"

definition shop_db :: Database where
  "shop_db =
     \<lparr> customers = [sample_customer],
       products = [offer_item,
                   offer_item\<lparr>item_id := ''p2'', item_name := ''Samosa'', price := 5 / 2,
                              isOnOffer := False\<rparr>],
       orders = [sample_order] \<rparr>"

definition sample_run :: PayloadRun where
  "sample_run =
     \<lparr> clock_booking = 0, clock_stats = 5, missingProductThrows = True,
       customerWriteRejected = False, orderCreateRejected = False, statsUpdateRejected = False,
       loginToken = Some ''token'', newCustomerId = ''c2'', newOrderId = ''o2'',
       newOrderNumber = ''ORD-2'' \<rparr>"

definition sample_info :: CustomerInfo where
  "sample_info =
     \<lparr> info_email = ''aisha@example.om'', info_password = ''secret1'', info_firstName = ''Aisha'',
       info_lastName = ''Said'', info_phone = ''92345678'' \<rparr>"

definition sample_request :: CheckoutRequest where
  "sample_request =
     \<lparr> items = Some [\<lparr> cart_id = ''p1'', cart_name = ''Biryani'', cart_quantity = 2, cart_price = 1 \<rparr>,
                     \<lparr> cart_id = ''p2'', cart_name = ''Samosa'', cart_quantity = 3, cart_price = 2 \<rparr>],
       customerInfo = Some sample_info,
       deliveryAddress = None,
       serviceType = Some pickup,
       bookingDate = Instant (25 * 3600 * 1000),
       customerNotes = [],
       submitted_totalAmount = Some 1 \<rparr>"

definition new_info :: CustomerInfo where
  "new_info = sample_info\<lparr>info_email := ''new@example.om''\<rparr>"

definition created_order :: Order where
  "created_order =
     \<lparr> order_id = ''o2'', orderNumber = ''ORD-2'', order_customer = ''c1'',
       order_items = [\<lparr> foodItem = ''p1'', quantity = 2, unit_price = 10, subtotal = 20 \<rparr>,
                      \<lparr> foodItem = ''p2'', quantity = 3, unit_price = 5 / 2, subtotal = 15 / 2 \<rparr>],
       totalAmount = 55 / 2, status = pending, order_bookingDate = 90000000,
       order_customerNotes = [], order_serviceType = pickup,
       paymentStatus = payment_pending, order_deliveryAddress = None \<rparr>"

definition new_customer :: Customer where
  "new_customer =
     \<lparr> customer_id = ''c2'', email = ''new@example.om'', firstName = ''Aisha'', lastName = ''Said'',
       phone = ''92345678'', isActive = True, defaultAddress = None,
       totalOrders = Some 0, totalSpent = Some 0, loyaltyPoints = Some 0,
       lastOrderDate = None \<rparr>"





definition new_request :: CheckoutRequest where
  "new_request = sample_request\<lparr>customerInfo := Some new_info\<rparr>"

definition two_checkouts :: "(PayloadRun \<times> CheckoutRequest) list" where
  "two_checkouts =
     [(sample_run, new_request),
      (sample_run\<lparr>newOrderId := ''o3'', newOrderNumber := ''ORD-3'', clock_stats := 9\<rparr>, new_request)]"

section \<open>Offer evaluation: results\<close>

lemma isOfferActive_discount_positive:
  "isOfferActive item now \<Longrightarrow> \<exists>v. discountValue item = Some v \<and> 0 < v"
  by (cases "discountValue item") (auto simp: isOfferActive_def split: if_splits)

lemma getEffectivePrice_bounds:
  assumes "0 \<le> price item"
  shows "0 \<le> getEffectivePrice item now \<and> getEffectivePrice item now \<le> price item"
proof (cases "isOfferActive item now")
  case False
  then show ?thesis using assms by (simp add: getEffectivePrice_def)
next
  case True
  then obtain v where v: "discountValue item = Some v" "0 < v"
    using isOfferActive_discount_positive by blast
  have "0 \<le> price item * v / 100" using assms v by simp
  then show ?thesis using assms v True
    by (auto simp: getEffectivePrice_def Let_def)
qed

text \<open>
  Claim C2. Without an active offer the effective price is the raw price. With an active
  offer it is \<open>price - price * discountValue / 100\<close> for a percentage discount and
  \<open>price - discountValue\<close> for a fixed discount, each clamped at 0 from below. For a
  product whose price is not negative (the Products collection declares \<open>min: 0\<close>) the
  effective price lies between 0 and the price.
\<close>

theorem getEffectivePrice_spec:
  "(\<not> isOfferActive item now \<longrightarrow> getEffectivePrice item now = price item) \<and>
   (isOfferActive item now \<and> discountType item = Some percentage \<and> discountValue item = Some v \<longrightarrow>
      getEffectivePrice item now = max 0 (price item - price item * v / 100)) \<and>
   (isOfferActive item now \<and> discountType item = Some fixed \<and> discountValue item = Some v \<longrightarrow>
      getEffectivePrice item now = max 0 (price item - v)) \<and>
   (0 \<le> price item \<longrightarrow>
      0 \<le> getEffectivePrice item now \<and> getEffectivePrice item now \<le> price item)"
proof -
  have active: "isOfferActive item now \<Longrightarrow> discountValue item = Some v \<Longrightarrow> truthy_num (Some v)"
    using isOfferActive_discount_positive[of item now] by auto
  show ?thesis
    using getEffectivePrice_bounds[of item now] active
    by (auto simp: getEffectivePrice_def Let_def)
qed

theorem getEffectivePrice_spec_witness:
  "isOfferActive offer_item 0 \<and> getEffectivePrice offer_item 0 = 8 \<and>
   0 \<le> getEffectivePrice offer_item 0 \<and> getEffectivePrice offer_item 0 \<le> price offer_item \<and>
   getEffectivePrice (offer_item\<lparr>discountType := Some fixed, discountValue := Some 3\<rparr>) 0 = 7 \<and>
   \<not> isOfferActive (offer_item\<lparr>isOnOffer := False\<rparr>) 0 \<and>
   getEffectivePrice (offer_item\<lparr>isOnOffer := False\<rparr>) 0 = 10"
proof -
  have a: "isOfferActive offer_item 0"
    by (simp add: isOfferActive_def offer_item_def)
  have b: "isOfferActive (offer_item\<lparr>discountType := Some fixed, discountValue := Some 3\<rparr>) 0"
    by (simp add: isOfferActive_def offer_item_def)
  have c: "\<not> isOfferActive (offer_item\<lparr>isOnOffer := False\<rparr>) 0"
    by (simp add: isOfferActive_def offer_item_def)
  show ?thesis
    using a b c
      getEffectivePrice_spec[of offer_item 0 20]
      getEffectivePrice_spec[of "offer_item\<lparr>discountType := Some fixed, discountValue := Some 3\<rparr>" 0 3]
      getEffectivePrice_spec[of "offer_item\<lparr>isOnOffer := False\<rparr>" 0 0]
    by (simp add: offer_item_def)
qed

lemma getSavingsPercentage_nonzero_price:
  assumes "price item \<noteq> 0"
  shows "getSavingsPercentage item now =
           Num (of_int (round (100 * getSavingsAmount item now / price item)))"
  using assms
  by (simp add: getSavingsPercentage_def getSavingsAmount_def js_div_def round_def Let_def
        algebra_simps)

text \<open>
  Claim C9. For a product whose price is 0 and whose offer is active the division
  \<open>savings / item.price\<close> is \<open>0 / 0\<close>: the function has no guard for it and returns
  \<open>NaN\<close>, where the claim says 0. (For every other price the result is the rounded
  percentage, \<open>getSavingsPercentage_nonzero_price\<close>.)
\<close>

theorem getSavingsPercentage_zero_price:
  assumes "price item = 0" and "isOfferActive item now"
  shows "getSavingsPercentage item now = NaN"
proof -
  obtain v where v: "discountValue item = Some v" "0 < v"
    using assms(2) isOfferActive_discount_positive by blast
  have "getEffectivePrice item now = 0"
    using assms v by (simp add: getEffectivePrice_def Let_def)
  then have "getSavingsAmount item now = 0"
    using assms by (simp add: getSavingsAmount_def)
  then show ?thesis
    using assms by (simp add: getSavingsPercentage_def js_div_def)
qed

theorem getSavingsPercentage_zero_price_witness:
  "price (offer_item\<lparr>price := 0\<rparr>) = 0 \<and> isOfferActive (offer_item\<lparr>price := 0\<rparr>) 0 \<and>
   getSavingsPercentage (offer_item\<lparr>price := 0\<rparr>) 0 = NaN \<and>
   getSavingsPercentage (offer_item\<lparr>price := 0\<rparr>) 0 \<noteq> Num 0"
proof -
  have a: "isOfferActive (offer_item\<lparr>price := 0\<rparr>) 0"
    by (simp add: isOfferActive_def offer_item_def)
  have b: "price (offer_item\<lparr>price := 0\<rparr>) = 0" by simp
  show ?thesis using a b getSavingsPercentage_zero_price[OF b a] by simp
qed

section \<open>Store pricing policy: results\<close>

lemma calculateDeliveryFee_default:
  "calculateDeliveryFee amount st None = calculateDeliveryFee amount st (Some defaultConfig)"
  by (simp add: calculateDeliveryFee_def)

lemma calculateDeliveryFee_missing_fields:
  assumes "serviceOptions cfg = Some so" and "st \<noteq> Some pickup" and "enableDelivery so \<noteq> Some False"
  shows "(freeDeliveryThreshold so = Undefined \<or> freeDeliveryThreshold so = JsNull \<longrightarrow>
            calculateDeliveryFee amount st (Some cfg)
              = (case deliveryFee so of Undefined \<Rightarrow> Number 0 | JsNull \<Rightarrow> JsNull | Number f \<Rightarrow> Number f))"
  using assms
  by (cases st; cases "enableDelivery so"; cases "deliveryFee so")
     (auto simp: calculateDeliveryFee_def isDeliveryEnabled_def Let_def)

text \<open>
  Claim C8. For a configuration whose service options carry the delivery fee \<open>fee\<close>, the
  free-delivery threshold \<open>threshold\<close> and the switch \<open>enableDelivery\<close>:
  \<open>calculateDeliveryFee\<close> returns 0 for a pickup order and when delivery is disabled; it
  returns 0 when the threshold is positive and the amount reaches it; in every other case
  it returns \<open>fee\<close>. Delivery is disabled exactly when the switch is \<open>false\<close>.
\<close>

theorem calculateDeliveryFee_spec:
  assumes "serviceOptions cfg = Some so"
    and "deliveryFee so = Number fee"
    and "freeDeliveryThreshold so = Number threshold"
  shows "(st = Some pickup \<or> enableDelivery so = Some False \<longrightarrow>
            calculateDeliveryFee amount st (Some cfg) = Number 0) \<and>
         (0 < threshold \<and> threshold \<le> amount \<longrightarrow>
            calculateDeliveryFee amount st (Some cfg) = Number 0) \<and>
         (st \<noteq> Some pickup \<and> enableDelivery so \<noteq> Some False \<and>
          \<not> (0 < threshold \<and> threshold \<le> amount) \<longrightarrow>
            calculateDeliveryFee amount st (Some cfg) = Number fee) \<and>
         isDeliveryEnabled (Some cfg) = (enableDelivery so \<noteq> Some False)"
proof -
  have en: "isDeliveryEnabled (Some cfg) = (enableDelivery so \<noteq> Some False)"
    using assms(1) by (cases "enableDelivery so") (auto simp: isDeliveryEnabled_def)
  have val: "calculateDeliveryFee amount st (Some cfg) =
               (if st = Some pickup \<or> enableDelivery so = Some False then Number 0
                else if 0 < threshold \<and> threshold \<le> amount then Number 0
                else Number fee)"
    using assms en by (cases st) (auto simp: calculateDeliveryFee_def Let_def)
  show ?thesis using en val by auto
qed

theorem calculateDeliveryFee_spec_witness:
  "calculateDeliveryFee 25 (Some delivery) (Some threshold_config) = Number 0 \<and>
   calculateDeliveryFee 10 (Some delivery) (Some threshold_config) = Number 3 \<and>
   calculateDeliveryFee 10 (Some pickup) (Some threshold_config) = Number 0 \<and>
   calculateDeliveryFee 10 (Some delivery) (Some no_delivery_config) = Number 0 \<and>
   calculateDeliveryFee 60 (Some delivery) (Some example_config) = Number 0 \<and>
   calculateDeliveryFee 40 (Some delivery) (Some example_config) = Number 1 \<and>
   calculateDeliveryFee 40 (Some pickup) (Some example_config) = Number 0 \<and>
   calculateDeliveryFee 60 (Some pickup) (Some example_config) = Number 0"
proof -
  let ?so = "\<lparr> enableDelivery = Some True, enablePickup = Some True,
               deliveryFee = Number 3, freeDeliveryThreshold = Number 20 \<rparr>"
  let ?ex = "\<lparr> enableDelivery = Some True, enablePickup = Some True,
               deliveryFee = Number 1, freeDeliveryThreshold = Number 50 \<rparr>"
  let ?off = "\<lparr> enableDelivery = Some False, enablePickup = Some True,
                deliveryFee = Number 3, freeDeliveryThreshold = Number 20 \<rparr>"
  have t: "serviceOptions threshold_config = Some ?so" by (simp add: threshold_config_def)
  have e: "serviceOptions example_config = Some ?ex" by (simp add: example_config_def)
  have n: "serviceOptions no_delivery_config = Some ?off" by (simp add: no_delivery_config_def)
  have f3: "deliveryFee ?so = Number 3" "freeDeliveryThreshold ?so = Number 20" by simp_all
  have f1: "deliveryFee ?ex = Number 1" "freeDeliveryThreshold ?ex = Number 50" by simp_all
  have fo: "deliveryFee ?off = Number 3" "freeDeliveryThreshold ?off = Number 20" by simp_all
  show ?thesis
    using calculateDeliveryFee_spec[OF t f3, of "Some delivery" 25]
          calculateDeliveryFee_spec[OF t f3, of "Some delivery" 10]
          calculateDeliveryFee_spec[OF t f3, of "Some pickup" 10]
          calculateDeliveryFee_spec[OF n fo, of "Some delivery" 10]
          calculateDeliveryFee_spec[OF e f1, of "Some delivery" 60]
          calculateDeliveryFee_spec[OF e f1, of "Some delivery" 40]
          calculateDeliveryFee_spec[OF e f1, of "Some pickup" 40]
          calculateDeliveryFee_spec[OF e f1, of "Some pickup" 60]
    by simp
qed

section \<open>Order cancellation: results\<close>

lemma find_map_invariant:
  assumes "\<And>x. P (g x) = P x"
  shows "find P (map g xs) = map_option g (find P xs)"
  by (induction xs) (simp_all add: assms)

lemma find_order_update_order:
  assumes "\<And>d. orderNumber (f d) = orderNumber d" and "\<And>d. order_customer (f d) = order_customer d"
  shows "find_order (update_order oid f db) num cid
           = map_option (\<lambda>d. if order_id d = oid then f d else d) (find_order db num cid)"
  unfolding find_order_def update_order_def
  by (simp add: assms find_map_invariant)

lemma bookingDate_validate_iff:
  "bookingDate_validate now t = (\<not> t - now < 24 * 3600 * 1000)"
proof -
  have "(real_of_int (t - now) / (1000 * 3600) < 24) = (real_of_int (t - now) < real_of_int 86400000)"
    by (simp add: field_simps)
  also have "\<dots> = (t - now < 86400000)"
    by (rule of_int_less_iff)
  finally show ?thesis by (simp add: bookingDate_validate_def)
qed

text \<open>
  What the handler does with a request that names an order of the requesting customer. A
  status other than pending and confirmed is rejected with an error of the class
  \<open>InvalidStateError\<close> and the database unchanged. A pending or confirmed order becomes
  cancelled, with the reason appended to its notes, when the store accepts the write,
  which takes a booking date at least 24 hours ahead; otherwise nothing changes.
\<close>

lemma cancelOrder_outcomes:
  assumes "cancel_orderNumber req \<noteq> []" and "cancel_customerId req \<noteq> []"
    and "find_order db (cancel_orderNumber req) (cancel_customerId req) = Some ord"
  shows
    "(status ord \<noteq> pending \<and> status ord \<noteq> confirmed \<longrightarrow>
        cancelOrder now rejected db req = (CannotCancel (status ord), db) \<and>
        cancel_error_class (fst (cancelOrder now rejected db req)) = Some InvalidStateError) \<and>
     ((status ord = pending \<or> status ord = confirmed) \<and> \<not> rejected \<and>
      bookingDate_validate now (order_bookingDate ord) \<longrightarrow>
        (\<exists>ord'. fst (cancelOrder now rejected db req) = Cancelled ord' \<and>
           ord' = ord\<lparr>status := cancelled, order_customerNotes := order_customerNotes ord'\<rparr> \<and>
           order_customerNotes ord' =
             (if order_customerNotes ord \<noteq> [] then order_customerNotes ord @ '' | '' else [])
             @ (if reason req \<noteq> [] then ''CANCELLED: '' @ reason req
                else ''CANCELLED by customer'') \<and>
           find_order (snd (cancelOrder now rejected db req))
             (cancel_orderNumber req) (cancel_customerId req) = Some ord' \<and>
           orders (snd (cancelOrder now rejected db req)) =
             map (\<lambda>d. if order_id d = order_id ord
                       then d\<lparr>status := cancelled, order_customerNotes := order_customerNotes ord'\<rparr>
                       else d) (orders db) \<and>
           customers (snd (cancelOrder now rejected db req)) = customers db \<and>
           products (snd (cancelOrder now rejected db req)) = products db)) \<and>
     ((status ord = pending \<or> status ord = confirmed) \<and>
      (rejected \<or> \<not> bookingDate_validate now (order_bookingDate ord)) \<longrightarrow>
        cancelOrder now rejected db req = (FailedToCancel, db))"
proof (intro conjI impI)
  assume "status ord \<noteq> pending \<and> status ord \<noteq> confirmed"
  then show "cancelOrder now rejected db req = (CannotCancel (status ord), db)"
    using assms by (simp add: cancelOrder_def)
  then show "cancel_error_class (fst (cancelOrder now rejected db req)) = Some InvalidStateError"
    by simp
next
  assume "(status ord = pending \<or> status ord = confirmed) \<and>
      (rejected \<or> \<not> bookingDate_validate now (order_bookingDate ord))"
  then show "cancelOrder now rejected db req = (FailedToCancel, db)"
    using assms by (auto simp: cancelOrder_def)
next
  assume ok: "(status ord = pending \<or> status ord = confirmed) \<and> \<not> rejected \<and>
      bookingDate_validate now (order_bookingDate ord)"
  define newNotes where "newNotes = cancelled_notes (order_customerNotes ord) (reason req)"
  define patch where "patch = (\<lambda>d::Order. d\<lparr>status := cancelled, order_customerNotes := newNotes\<rparr>)"
  have res: "cancelOrder now rejected db req = (Cancelled (patch ord), update_order (order_id ord) patch db)"
    using assms ok by (auto simp: cancelOrder_def Let_def patch_def newNotes_def)
  have found: "find_order (update_order (order_id ord) patch db)
                 (cancel_orderNumber req) (cancel_customerId req) = Some (patch ord)"
    using assms(3) by (simp add: find_order_update_order patch_def)
  have n: "newNotes = (if order_customerNotes ord \<noteq> [] then order_customerNotes ord @ '' | '' else [])
             @ (if reason req \<noteq> [] then ''CANCELLED: '' @ reason req
                else ''CANCELLED by customer'')"
    by (simp add: newNotes_def cancelled_notes_def)
  show "\<exists>ord'. fst (cancelOrder now rejected db req) = Cancelled ord' \<and>
           ord' = ord\<lparr>status := cancelled, order_customerNotes := order_customerNotes ord'\<rparr> \<and>
           order_customerNotes ord' =
             (if order_customerNotes ord \<noteq> [] then order_customerNotes ord @ '' | '' else [])
             @ (if reason req \<noteq> [] then ''CANCELLED: '' @ reason req
                else ''CANCELLED by customer'') \<and>
           find_order (snd (cancelOrder now rejected db req))
             (cancel_orderNumber req) (cancel_customerId req) = Some ord' \<and>
           orders (snd (cancelOrder now rejected db req)) =
             map (\<lambda>d. if order_id d = order_id ord
                       then d\<lparr>status := cancelled, order_customerNotes := order_customerNotes ord'\<rparr>
                       else d) (orders db) \<and>
           customers (snd (cancelOrder now rejected db req)) = customers db \<and>
           products (snd (cancelOrder now rejected db req)) = products db"
  proof (intro exI[of _ "patch ord"] conjI)
    show "fst (cancelOrder now rejected db req) = Cancelled (patch ord)" by (simp add: res)
    show "patch ord = ord\<lparr>status := cancelled, order_customerNotes := order_customerNotes (patch ord)\<rparr>"
      by (simp add: patch_def)
    show "order_customerNotes (patch ord) =
             (if order_customerNotes ord \<noteq> [] then order_customerNotes ord @ '' | '' else [])
             @ (if reason req \<noteq> [] then ''CANCELLED: '' @ reason req
                else ''CANCELLED by customer'')"
      using n by (simp add: patch_def)
    show "find_order (snd (cancelOrder now rejected db req))
             (cancel_orderNumber req) (cancel_customerId req) = Some (patch ord)"
      using found by (simp add: res)
    show "orders (snd (cancelOrder now rejected db req)) =
             map (\<lambda>d. if order_id d = order_id ord
                       then d\<lparr>status := cancelled, order_customerNotes := order_customerNotes (patch ord)\<rparr>
                       else d) (orders db)"
      by (simp add: res update_order_def patch_def)
    show "customers (snd (cancelOrder now rejected db req)) = customers db"
      by (simp add: res update_order_def)
    show "products (snd (cancelOrder now rejected db req)) = products db"
      by (simp add: res update_order_def)
  qed
qed

text \<open>
  Claim C7. The claim fails on the code for a pending or confirmed order whose booking date
  is less than 24 hours ahead: the update that would cancel it runs the validator of
  \<open>bookingDate\<close>, the store refuses the write, and the handler answers "Failed to cancel
  order" with the order as it was. The handler for \<open>GET\<close> on the same route says of the same
  order that it can be cancelled.
\<close>

theorem cancelOrder_refused_near_booking:
  assumes "cancel_orderNumber req \<noteq> []" and "cancel_customerId req \<noteq> []"
    and "find_order db (cancel_orderNumber req) (cancel_customerId req) = Some ord"
    and "status ord = pending \<or> status ord = confirmed"
    and "order_bookingDate ord - now < 24 * 3600 * 1000"
  shows "cancelOrder now rejected db req = (FailedToCancel, db) \<and>
         cancel_error_class (fst (cancelOrder now rejected db req)) = Some InternalError \<and>
         find_order (snd (cancelOrder now rejected db req))
           (cancel_orderNumber req) (cancel_customerId req) = Some ord \<and>
         canCancel db (cancel_orderNumber req) (cancel_customerId req) = Some True"
proof -
  have "\<not> bookingDate_validate now (order_bookingDate ord)"
    using assms(5) by (simp add: bookingDate_validate_iff)
  then have res: "cancelOrder now rejected db req = (FailedToCancel, db)"
    using assms by (auto simp: cancelOrder_def)
  have "canCancel db (cancel_orderNumber req) (cancel_customerId req) = Some True"
    using assms by (auto simp: canCancel_def)
  then show ?thesis using res assms(3) by simp
qed

theorem cancelOrder_refused_near_booking_witness:
  "find_order cancel_db ''ORD-1'' ''c1'' = Some sample_order \<and>
   status sample_order = pending \<and>
   order_bookingDate sample_order - 190000000 < 24 * 3600 * 1000 \<and>
   cancelOrder 190000000 False cancel_db cancel_request = (FailedToCancel, cancel_db) \<and>
   find_order (snd (cancelOrder 190000000 False cancel_db cancel_request)) ''ORD-1'' ''c1''
     = Some sample_order \<and>
   canCancel cancel_db ''ORD-1'' ''c1'' = Some True"
proof -
  have a: "cancel_orderNumber cancel_request \<noteq> []" "cancel_customerId cancel_request \<noteq> []"
    by (simp_all add: cancel_request_def)
  have f: "find_order cancel_db (cancel_orderNumber cancel_request) (cancel_customerId cancel_request)
             = Some sample_order"
    by (simp add: find_order_def cancel_db_def cancel_request_def sample_order_def)
  have p: "status sample_order = pending \<or> status sample_order = confirmed"
    by (simp add: sample_order_def)
  have d: "order_bookingDate sample_order - 190000000 < 24 * 3600 * 1000"
    by (simp add: sample_order_def)
  show ?thesis
    using f d cancelOrder_refused_near_booking[OF a f p d, of False]
    by (simp add: cancel_request_def sample_order_def)
qed

section \<open>Checkout: results\<close>

lemmas sample_defs =
  sample_request_def sample_info_def new_info_def sample_run_def shop_db_def sample_customer_def
  sample_order_def offer_item_def created_order_def new_customer_def

lemmas handler_defs =
  checkout_def resolve_customer_def create_order_def findByID_def find_customers_by_email_def
  update_customer_def Orders_validate_def booking_too_soon_def customer_address_def
  order_address_def

lemmas stored_projections = stored_totalOrders_def stored_totalSpent_def stored_loyaltyPoints_def

subsection \<open>Evaluation at the sample data\<close>

lemma sample_checkout:
  "checkout sample_run shop_db sample_request =
     (CheckoutSuccess created_order (sample_customer\<lparr>phone := ''92345678''\<rparr>) False (Some ''token''),
      shop_db\<lparr>customers := [sample_customer\<lparr>phone := ''92345678'', totalOrders := Some 4,
                                totalSpent := Some (135 / 2), loyaltyPoints := Some 65,
                                lastOrderDate := Some 5\<rparr>],
              orders := [sample_order, created_order]\<rparr>)"
  by (simp add: handler_defs sample_defs Let_def)

lemma sample_checkout_too_soon:
  "checkout sample_run shop_db
     (sample_request\<lparr>bookingDate := Instant (23 * 3600 * 1000), customerInfo := Some new_info\<rparr>)
   = (BookingTooSoon, shop_db\<lparr>customers := [sample_customer, new_customer]\<rparr>)"
  by (simp add: handler_defs sample_defs Let_def)

lemma sample_checkout_empty_cart:
  "checkout sample_run shop_db (sample_request\<lparr>items := Some [], customerInfo := Some new_info\<rparr>)
   = (FailedToCreateOrder, shop_db\<lparr>customers := [sample_customer, new_customer]\<rparr>)"
  by (simp add: handler_defs sample_defs Let_def)

lemma two_checkouts_responses:
  "map succeeded (fst (checkouts shop_db two_checkouts)) = [True, True] \<and>
   map order_total (fst (checkouts shop_db two_checkouts)) = [55 / 2, 55 / 2] \<and>
   map points_awarded (fst (checkouts shop_db two_checkouts)) = [27, 27]"
  by (simp add: two_checkouts_def new_request_def handler_defs sample_defs Let_def)

subsection \<open>The submitted total\<close>

lemma create_order_ignores_submitted_totalAmount:
  "create_order run db (data\<lparr>submitted_totalAmount := t\<rparr>) info st customer isNew ls tot
     = create_order run db data info st customer isNew ls tot"
  by (simp add: create_order_def split: js_date.splits)

text \<open>
  Claim C10. Two checkout requests that differ only in the submitted \<open>totalAmount\<close> give
  the same response and leave the same database: the handler never reads the member, and
  the total of the order is the one it computes.
\<close>

theorem checkout_ignores_submitted_totalAmount:
  "checkout run db (data\<lparr>submitted_totalAmount := t\<rparr>) = checkout run db data"
  by (simp add: checkout_def create_order_ignores_submitted_totalAmount
        cong: option.case_cong sum.case_cong prod.case_cong if_cong)

theorem checkout_ignores_submitted_totalAmount_witness:
  "checkout sample_run shop_db (sample_request\<lparr>submitted_totalAmount := Some 1000\<rparr>)
     = checkout sample_run shop_db sample_request \<and>
   checkout sample_run shop_db (sample_request\<lparr>submitted_totalAmount := None\<rparr>)
     = checkout sample_run shop_db sample_request \<and>
   totalAmount created_order = 55 / 2 \<and>
   fst (checkout sample_run shop_db (sample_request\<lparr>submitted_totalAmount := Some 1000\<rparr>))
     = CheckoutSuccess created_order (sample_customer\<lparr>phone := ''92345678''\<rparr>) False (Some ''token'')"
  using checkout_ignores_submitted_totalAmount
          [where run = sample_run and db = shop_db and data = sample_request and t = "Some 1000"]
        checkout_ignores_submitted_totalAmount
          [where run = sample_run and db = shop_db and data = sample_request and t = None]
        sample_checkout
  by (simp add: created_order_def)

subsection \<open>Customer resolution\<close>

lemma filter_email_map:
  assumes "\<And>x. email (g x) = email x"
  shows "filter (\<lambda>c. email c = e) (map g xs) = map g (filter (\<lambda>c. email c = e) xs)"
  by (induction xs) (simp_all add: assms)

lemma stored_customer_update:
  assumes "\<And>x. email (f x) = email x"
  shows "stored_customer (update_customer cid f db) e
           = map_option (\<lambda>c. if customer_id c = cid then f c else c) (stored_customer db e)"
proof -
  have "filter (\<lambda>c. email c = e) (map (\<lambda>c. if customer_id c = cid then f c else c) (customers db))
          = map (\<lambda>c. if customer_id c = cid then f c else c) (filter (\<lambda>c. email c = e) (customers db))"
    by (rule filter_email_map) (simp add: assms)
  then show ?thesis
    by (simp add: stored_customer_def find_customers_by_email_def update_customer_def
          split: list.splits)
qed

lemma stored_customer_orders [simp]:
  "stored_customer (db\<lparr>orders := os\<rparr>) e = stored_customer db e"
  by (simp add: stored_customer_def find_customers_by_email_def)

lemma resolve_customer_frame:
  assumes "resolve_customer run db info st addr = Inr (c, isNew, db1)"
  shows "products db1 = products db \<and> orders db1 = orders db"
  using assms
  by (auto simp: resolve_customer_def update_customer_def Let_def
        split: list.splits if_splits option.splits)

lemma resolve_customer_stored:
  assumes "resolve_customer run db info st addr = Inr (c, isNew, db1)"
  shows "stored_customer db1 (info_email info) = Some c \<and> email c = info_email info \<and>
         (case stored_customer db (info_email info) of
            None \<Rightarrow> isNew \<and> aggregates c = (Some 0, Some 0, Some 0, None)
          | Some old \<Rightarrow> \<not> isNew \<and> aggregates c = aggregates old \<and> customer_id c = customer_id old)"
proof (cases "find_customers_by_email db (info_email info)")
  case Nil
  then have none: "filter (\<lambda>c. email c = info_email info) (customers db) = []"
    by (simp add: find_customers_by_email_def)
  show ?thesis
    using assms Nil none
    by (auto simp: resolve_customer_def stored_customer_def find_customers_by_email_def
          aggregates_def Let_def split: if_splits)
next
  case (Cons existing others)
  then have "existing \<in> set (find_customers_by_email db (info_email info))"
    by simp
  then have e: "email existing = info_email info"
    by (simp add: find_customers_by_email_def)
  define f' where "f' = (case addr of
                                Some a \<Rightarrow> if st = delivery
                                          then (\<lambda>d::Customer. d\<lparr>firstName := info_firstName info,
                                      lastName := info_lastName info,
                                      phone := info_phone info, defaultAddress := Some (customer_address a)\<rparr>)
                                          else (\<lambda>d. d\<lparr>firstName := info_firstName info,
                                      lastName := info_lastName info,
                                      phone := info_phone info\<rparr>)
                              | None \<Rightarrow> (\<lambda>d. d\<lparr>firstName := info_firstName info,
                                      lastName := info_lastName info,
                                      phone := info_phone info\<rparr>))"
  have fe: "\<And>x. email (f' x) = email x" "\<And>x. aggregates (f' x) = aggregates x"
       "\<And>x. customer_id (f' x) = customer_id x"
    by (auto simp: f'_def aggregates_def split: option.splits)
  have res: "c = f' existing" "isNew = False" "db1 = update_customer (customer_id existing) f' db"
    using assms Cons
    by (auto simp: resolve_customer_def Let_def f'_def split: if_splits option.splits)
  have old: "stored_customer db (info_email info) = Some existing"
    using Cons by (simp add: stored_customer_def)
  have "stored_customer db1 (info_email info) = Some (f' existing)"
    unfolding res using fe(1) old by (simp add: stored_customer_update)
  then show ?thesis using res fe old e by simp
qed

lemma resolve_customer_counters:
  assumes "resolve_customer run db info st addr = Inr (c, isNew, db1)"
  shows "stored_counters db1 e = stored_counters db e \<and>
         stored_lastOrderDate db1 e = stored_lastOrderDate db e"
proof (cases "find_customers_by_email db (info_email info)")
  case Nil
  then have res: "customers db1 = customers db @ [c]" "aggregates c = (Some 0, Some 0, Some 0, None)"
    using assms
    by (auto simp: resolve_customer_def aggregates_def Let_def split: if_splits)
  have "stored_customer db1 e = (case stored_customer db e of Some x \<Rightarrow> Some x
                                 | None \<Rightarrow> if email c = e then Some c else None)"
    using res(1)
    by (simp add: stored_customer_def find_customers_by_email_def split: list.splits)
  then show ?thesis using res(2)
    by (auto simp: stored_counters_def stored_lastOrderDate_def aggregates_def split: option.splits)
next
  case (Cons existing others)
  define f' where "f' = (case addr of
                                Some a \<Rightarrow> if st = delivery
                                          then (\<lambda>d::Customer. d\<lparr>firstName := info_firstName info,
                                      lastName := info_lastName info,
                                      phone := info_phone info, defaultAddress := Some (customer_address a)\<rparr>)
                                          else (\<lambda>d. d\<lparr>firstName := info_firstName info,
                                      lastName := info_lastName info,
                                      phone := info_phone info\<rparr>)
                              | None \<Rightarrow> (\<lambda>d. d\<lparr>firstName := info_firstName info,
                                      lastName := info_lastName info,
                                      phone := info_phone info\<rparr>))"
  have fe: "\<And>x. email (f' x) = email x" "\<And>x. totalOrders (f' x) = totalOrders x"
       "\<And>x. totalSpent (f' x) = totalSpent x" "\<And>x. loyaltyPoints (f' x) = loyaltyPoints x"
       "\<And>x. lastOrderDate (f' x) = lastOrderDate x"
    by (auto simp: f'_def split: option.splits)
  have res: "db1 = update_customer (customer_id existing) f' db"
    using assms Cons
    by (auto simp: resolve_customer_def Let_def f'_def split: if_splits option.splits)
  have "stored_customer db1 e
          = map_option (\<lambda>c. if customer_id c = customer_id existing then f' c else c) (stored_customer db e)"
    unfolding res using fe(1) by (rule stored_customer_update)
  then show ?thesis using fe
    by (auto simp: stored_counters_def stored_lastOrderDate_def split: option.splits)
qed

lemma resolve_customer_error_class:
  assumes "resolve_customer run db info st addr = Inl err"
  shows "error_class err = Some CustomerError"
  using assms
  by (auto simp: resolve_customer_def Let_def split: list.splits if_splits)

subsection \<open>The loop over the cart lines\<close>

lemma process_items_success:
  assumes "process_items run db cart acc tot = Inr (ls, sm)"
  shows "\<exists>new. ls = acc @ new \<and> sm = tot + sum_list (map subtotal new) \<and>
           list_all2 (\<lambda>item l. \<exists>p. find (\<lambda>p. item_id p = cart_id item) (products db) = Some p \<and>
                        cart_id item \<noteq> [] \<and> foodItem l = item_id p \<and> unit_price l = price p \<and>
                        quantity l = cart_quantity item \<and>
                        subtotal l = price p * cart_quantity item) cart new"
  using assms
proof (induction cart arbitrary: acc tot)
  case Nil
  then show ?case by simp
next
  case (Cons item rest)
  from Cons.prems have idok: "cart_id item \<noteq> []"
    by (auto split: if_splits)
  from Cons.prems idok obtain p where p: "find (\<lambda>p. item_id p = cart_id item) (products db) = Some p"
    by (auto simp: findByID_def split: option.splits if_splits)
  let ?l = "\<lparr> foodItem = item_id p, quantity = cart_quantity item, unit_price = price p,
              subtotal = price p * cart_quantity item \<rparr>"
  from Cons.prems idok p
  have rec: "process_items run db rest (acc @ [?l]) (tot + price p * cart_quantity item) = Inr (ls, sm)"
    by (simp add: findByID_def Let_def)
  from Cons.IH[OF rec] obtain new where new:
    "ls = (acc @ [?l]) @ new" "sm = (tot + price p * cart_quantity item) + sum_list (map subtotal new)"
    "list_all2 (\<lambda>item l. \<exists>p. find (\<lambda>p. item_id p = cart_id item) (products db) = Some p \<and>
                        cart_id item \<noteq> [] \<and> foodItem l = item_id p \<and> unit_price l = price p \<and>
                        quantity l = cart_quantity item \<and>
                        subtotal l = price p * cart_quantity item) rest new"
    by blast
  show ?case
  proof (intro exI[of _ "?l # new"] conjI)
    show "ls = acc @ ?l # new" using new(1) by simp
    show "sm = tot + sum_list (map subtotal (?l # new))" using new(2) by simp
    show "list_all2 (\<lambda>item l. \<exists>p. find (\<lambda>p. item_id p = cart_id item) (products db) = Some p \<and>
                        cart_id item \<noteq> [] \<and> foodItem l = item_id p \<and> unit_price l = price p \<and>
                        quantity l = cart_quantity item \<and>
                        subtotal l = price p * cart_quantity item) (item # rest) (?l # new)"
      using new(3) p idok by simp
  qed
qed


lemma process_items_ignores_cart_price:
  "process_items run db (map (\<lambda>i. i\<lparr>cart_price := f i\<rparr>) cart) acc tot
     = process_items run db cart acc tot"
  by (induction cart arbitrary: acc tot) (simp_all add: Let_def cong: lookup.case_cong)

lemma process_items_error_class:
  assumes "process_items run db cart acc tot = Inl err"
  shows "error_class err = Some ItemError \<or> error_class err = Some InternalError"
  using assms
  by (induction cart arbitrary: acc tot)
     (auto simp: Let_def split: if_splits lookup.splits)

subsection \<open>Order creation and the shape of a run\<close>

lemma create_order_success:
  assumes "create_order run db1 data info st customer isNew ls sm
             = (CheckoutSuccess ord c n token, db')"
  shows "order_items ord = ls \<and> totalAmount ord = sm \<and> order_customer ord = customer_id customer \<and>
         c = customer \<and> n = isNew \<and> token = loginToken run \<and> status ord = pending \<and>
         paymentStatus ord = payment_pending \<and> Orders_validate ord \<and>
         bookingDate data = Instant (order_bookingDate ord) \<and>
         db' = update_customer (customer_id customer)
                 (\<lambda>d. d\<lparr>totalOrders := Some (or0 (totalOrders customer) + 1),
                         totalSpent := Some (or0 (totalSpent customer) + sm),
                         lastOrderDate := Some (clock_stats run),
                         loyaltyPoints := Some (or0 (loyaltyPoints customer) + of_int \<lfloor>sm\<rfloor>)\<rparr>)
                 (db1\<lparr>orders := orders db1 @ [ord]\<rparr>)"
  using assms
  by (auto simp: create_order_def Let_def split: js_date.splits if_splits)

lemma create_order_failure:
  assumes "error_class (fst (create_order run db1 data info st customer isNew ls sm)) \<noteq> None"
  shows "fst (create_order run db1 data info st customer isNew ls sm) = FailedToCreateOrder \<and>
         customers (snd (create_order run db1 data info st customer isNew ls sm)) = customers db1 \<and>
         products (snd (create_order run db1 data info st customer isNew ls sm)) = products db1"
  using assms
  by (auto simp: create_order_def Let_def split: js_date.splits if_splits)

lemma checkout_valid:
  assumes "passes_validation data"
  obtains cart info st where "items data = Some cart" "customerInfo data = Some info"
    "serviceType data = Some st"
    "checkout run db data =
       (case resolve_customer run db info st (deliveryAddress data) of
          Inl err \<Rightarrow> (err, db)
        | Inr (customer, isNewCustomer, db1) \<Rightarrow>
            (case process_items run db1 cart [] 0 of
               Inl err \<Rightarrow> (err, db1)
             | Inr (orderItems, calculatedTotal) \<Rightarrow>
                 if booking_too_soon (bookingDate data) (clock_booking run)
                 then (BookingTooSoon, db1)
                 else create_order run db1 data info st customer isNewCustomer
                        orderItems calculatedTotal))"
proof -
  from assms obtain cart info st where v: "items data = Some cart" "customerInfo data = Some info"
    "serviceType data = Some st"
    by (auto simp: passes_validation_def)
  have "checkout run db data =
       (case resolve_customer run db info st (deliveryAddress data) of
          Inl err \<Rightarrow> (err, db)
        | Inr (customer, isNewCustomer, db1) \<Rightarrow>
            (case process_items run db1 cart [] 0 of
               Inl err \<Rightarrow> (err, db1)
             | Inr (orderItems, calculatedTotal) \<Rightarrow>
                 if booking_too_soon (bookingDate data) (clock_booking run)
                 then (BookingTooSoon, db1)
                 else create_order run db1 data info st customer isNewCustomer
                        orderItems calculatedTotal))"
    using assms v by (cases st) (simp_all add: checkout_def passes_validation_def cong: sum.case_cong prod.case_cong if_cong)
  then show ?thesis using v that by blast
qed

lemma checkout_invalid:
  assumes "\<not> passes_validation data"
  shows "snd (checkout run db data) = db \<and>
         error_class (fst (checkout run db data)) = Some ValidationError"
  using assms
  by (auto simp: checkout_def passes_validation_def split: option.splits)

lemma booking_too_soon_iff:
  "booking_too_soon b now = (\<exists>t. b = Instant t \<and> t - now < 24 * 3600 * 1000)"
proof (cases b)
  case (Instant t)
  have "(real_of_int (t - now) / (1000 * 3600) < 24) = (real_of_int (t - now) < real_of_int 86400000)"
    by (simp add: field_simps)
  also have "\<dots> = (t - now < 86400000)"
    by (rule of_int_less_iff)
  finally show ?thesis using Instant by (simp add: booking_too_soon_def)
qed (simp_all add: booking_too_soon_def)

lemma checkout_failure_frame:
  assumes "error_class (fst (checkout run db data)) \<noteq> None"
  shows "products (snd (checkout run db data)) = products db \<and>
         (\<forall>e. stored_counters (snd (checkout run db data)) e = stored_counters db e \<and>
              stored_lastOrderDate (snd (checkout run db data)) e = stored_lastOrderDate db e)"
proof (cases "passes_validation data")
  case False
  then show ?thesis using checkout_invalid[of data run db] by simp
next
  case True
  then obtain cart info st where v: "items data = Some cart" "customerInfo data = Some info"
    "serviceType data = Some st"
    and eq: "checkout run db data =
       (case resolve_customer run db info st (deliveryAddress data) of
          Inl err \<Rightarrow> (err, db)
        | Inr (customer, isNewCustomer, db1) \<Rightarrow>
            (case process_items run db1 cart [] 0 of
               Inl err \<Rightarrow> (err, db1)
             | Inr (orderItems, calculatedTotal) \<Rightarrow>
                 if booking_too_soon (bookingDate data) (clock_booking run)
                 then (BookingTooSoon, db1)
                 else create_order run db1 data info st customer isNewCustomer
                        orderItems calculatedTotal))"
    by (rule checkout_valid)
  show ?thesis
  proof (cases "resolve_customer run db info st (deliveryAddress data)")
    case (Inl err)
    then show ?thesis using eq by simp
  next
    case (Inr r)
    then obtain c isNew db1 where r: "resolve_customer run db info st (deliveryAddress data) = Inr (c, isNew, db1)"
      by (cases r) auto
    note fr = resolve_customer_frame[OF r] resolve_customer_counters[OF r]
    show ?thesis
    proof (cases "process_items run db1 cart [] 0")
      case (Inl err)
      then show ?thesis using eq r fr by simp
    next
      case (Inr pr)
      then obtain ls sm where p: "process_items run db1 cart [] 0 = Inr (ls, sm)" by (cases pr) auto
      show ?thesis
      proof (cases "booking_too_soon (bookingDate data) (clock_booking run)")
        case True
        then show ?thesis using eq r p fr by simp
      next
        case False
        then have e2: "checkout run db data = create_order run db1 data info st c isNew ls sm"
          using eq r p by simp
        have cf: "customers (snd (create_order run db1 data info st c isNew ls sm)) = customers db1"
                 "products (snd (create_order run db1 data info st c isNew ls sm)) = products db1"
          using create_order_failure[of run db1 data info st c isNew ls sm] assms e2 by simp_all
        have "\<And>e. stored_customer (snd (create_order run db1 data info st c isNew ls sm)) e
                = stored_customer db1 e"
          using cf(1) by (simp add: stored_customer_def find_customers_by_email_def)
        then show ?thesis using e2 cf fr
          by (simp add: stored_counters_def stored_lastOrderDate_def)
      qed
    qed
  qed
qed


lemma checkout_success_order:
  assumes "checkout run db data = (CheckoutSuccess ord c isNew token, db')"
  shows "\<exists>cart. items data = Some cart \<and>
           list_all2 (\<lambda>item l. \<exists>p. find (\<lambda>p. item_id p = cart_id item) (products db) = Some p \<and>
                         foodItem l = item_id p \<and> unit_price l = price p \<and>
                         quantity l = cart_quantity item \<and>
                         subtotal l = price p * cart_quantity item) cart (order_items ord) \<and>
           totalAmount ord = sum_list (map subtotal (order_items ord)) \<and>
           orders db' = orders db @ [ord] \<and> Orders_validate ord"
proof -
  have pv: "passes_validation data"
    using assms checkout_invalid[of data run db] by (cases "passes_validation data") auto
  then obtain cart info st where v: "items data = Some cart" "customerInfo data = Some info"
    "serviceType data = Some st"
    and eq: "checkout run db data =
       (case resolve_customer run db info st (deliveryAddress data) of
          Inl err \<Rightarrow> (err, db)
        | Inr (customer, isNewCustomer, db1) \<Rightarrow>
            (case process_items run db1 cart [] 0 of
               Inl err \<Rightarrow> (err, db1)
             | Inr (orderItems, calculatedTotal) \<Rightarrow>
                 if booking_too_soon (bookingDate data) (clock_booking run)
                 then (BookingTooSoon, db1)
                 else create_order run db1 data info st customer isNewCustomer
                        orderItems calculatedTotal))"
    by (rule checkout_valid)
  from assms eq obtain cu n db1 where r: "resolve_customer run db info st (deliveryAddress data) = Inr (cu, n, db1)"
    by (cases "resolve_customer run db info st (deliveryAddress data)")
       (auto dest: resolve_customer_error_class)
  note fr = resolve_customer_frame[OF r]
  from assms eq r obtain ls sm where p: "process_items run db1 cart [] 0 = Inr (ls, sm)"
    by (cases "process_items run db1 cart [] 0") (auto dest: process_items_error_class)
  from assms eq r p have co: "create_order run db1 data info st cu n ls sm
                                = (CheckoutSuccess ord c isNew token, db')"
    by (auto split: if_splits)
  note cs = create_order_success[OF co]
  from process_items_success[OF p] fr
  have la: "sm = sum_list (map subtotal ls)"
    "list_all2 (\<lambda>item l. \<exists>p. find (\<lambda>p. item_id p = cart_id item) (products db) = Some p \<and>
                         foodItem l = item_id p \<and> unit_price l = price p \<and>
                         quantity l = cart_quantity item \<and>
                         subtotal l = price p * cart_quantity item) cart ls"
    by (auto elim: list_all2_mono)
  have od: "orders db' = orders db @ [ord]"
    using cs fr by (simp add: update_customer_def)
  show ?thesis using v la cs od by auto
qed

lemma checkout_ignores_cart_price:
  assumes "items data = Some cart"
  shows "checkout run db (data\<lparr>items := Some (map (\<lambda>i. i\<lparr>cart_price := f i\<rparr>) cart)\<rparr>)
           = checkout run db data"
  using assms
  by (simp add: checkout_def create_order_def process_items_ignores_cart_price
        cong: option.case_cong sum.case_cong prod.case_cong if_cong js_date.case_cong)

subsection \<open>Line prices\<close>

text \<open>
  Claim C1. When a checkout succeeds, the order it persists (the one appended to the
  orders collection) has one line for each cart line, in order; the unit price of a line
  is the \<open>price\<close> of the product document found for the id of the cart line, its
  subtotal is that price times the requested quantity, and \<open>totalAmount\<close> is the sum of the
  subtotals. The price a cart line carries is ignored: a request with other line prices
  behaves the same. The witness has a product with an active offer: the line keeps the raw
  price 10, not the effective price 8.
\<close>

theorem checkout_reprices_from_products:
  assumes "checkout run db data = (CheckoutSuccess ord c isNew token, db')"
  shows "\<exists>cart. items data = Some cart \<and>
           list_all2 (\<lambda>item l. \<exists>p. find (\<lambda>p. item_id p = cart_id item) (products db) = Some p \<and>
                         foodItem l = item_id p \<and> unit_price l = price p \<and>
                         quantity l = cart_quantity item \<and>
                         subtotal l = price p * cart_quantity item) cart (order_items ord) \<and>
           totalAmount ord = sum_list (map subtotal (order_items ord)) \<and>
           orders db' = orders db @ [ord] \<and>
           (\<forall>f. checkout run db (data\<lparr>items := Some (map (\<lambda>i. i\<lparr>cart_price := f i\<rparr>) cart)\<rparr>)
                  = checkout run db data)"
proof -
  from checkout_success_order[OF assms] obtain cart where
    all: "items data = Some cart \<and>
           list_all2 (\<lambda>item l. \<exists>p. find (\<lambda>p. item_id p = cart_id item) (products db) = Some p \<and>
                         foodItem l = item_id p \<and> unit_price l = price p \<and>
                         quantity l = cart_quantity item \<and>
                         subtotal l = price p * cart_quantity item) cart (order_items ord) \<and>
           totalAmount ord = sum_list (map subtotal (order_items ord)) \<and>
           orders db' = orders db @ [ord] \<and> Orders_validate ord" ..
  then have cart: "items data = Some cart" by simp
  have "\<forall>f. checkout run db (data\<lparr>items := Some (map (\<lambda>i. i\<lparr>cart_price := f i\<rparr>) cart)\<rparr>)
                  = checkout run db data"
    using checkout_ignores_cart_price[OF cart] by simp
  with all show ?thesis by (intro exI[of _ cart]) simp
qed

theorem checkout_reprices_from_products_witness:
  "checkout sample_run shop_db sample_request =
     (CheckoutSuccess created_order (sample_customer\<lparr>phone := ''92345678''\<rparr>) False (Some ''token''),
      shop_db\<lparr>customers := [sample_customer\<lparr>phone := ''92345678'', totalOrders := Some 4,
                                totalSpent := Some (135 / 2), loyaltyPoints := Some 65,
                                lastOrderDate := Some 5\<rparr>],
              orders := [sample_order, created_order]\<rparr>) \<and>
   map unit_price (order_items created_order) = [10, 5 / 2] \<and>
   map subtotal (order_items created_order) = [20, 15 / 2] \<and>
   totalAmount created_order = sum_list (map subtotal (order_items created_order)) \<and>
   totalAmount created_order = 55 / 2 \<and>
   isOfferActive offer_item 0 \<and> getEffectivePrice offer_item 0 = 8 \<and> price offer_item = 10 \<and>
   (\<exists>cart. items sample_request = Some cart \<and>
      list_all2 (\<lambda>item l. \<exists>p. find (\<lambda>p. item_id p = cart_id item) (products shop_db) = Some p \<and>
                         foodItem l = item_id p \<and> unit_price l = price p \<and>
                         quantity l = cart_quantity item \<and>
                         subtotal l = price p * cart_quantity item) cart (order_items created_order))"
proof -
  have off: "isOfferActive offer_item 0 \<and> getEffectivePrice offer_item 0 = 8 \<and> price offer_item = 10"
    by (simp add: isOfferActive_def getEffectivePrice_def offer_item_def)
  have vals: "map unit_price (order_items created_order) = [10, 5 / 2] \<and>
              map subtotal (order_items created_order) = [20, 15 / 2] \<and>
              totalAmount created_order = 55 / 2"
    by (simp add: created_order_def)
  from checkout_reprices_from_products[OF sample_checkout]
  show ?thesis using sample_checkout off vals by blast
qed

subsection \<open>Structural validation\<close>

text \<open>
  Claim C5, as stated, fails: the handler tests only that \<open>items\<close> is present, so an empty
  cart passes the validation, and the customer of step 2 is written before the order is
  refused. At the sample data the response is not a validation error and a customer has
  been created.
\<close>

theorem checkout_accepts_empty_cart:
  "error_class (fst (checkout sample_run shop_db
      (sample_request\<lparr>items := Some [], customerInfo := Some new_info\<rparr>))) \<noteq> Some ValidationError \<and>
   customers (snd (checkout sample_run shop_db
      (sample_request\<lparr>items := Some [], customerInfo := Some new_info\<rparr>)))
     = customers shop_db @ [new_customer] \<and>
   snd (checkout sample_run shop_db
      (sample_request\<lparr>items := Some [], customerInfo := Some new_info\<rparr>)) \<noteq> shop_db"
proof -
  have "shop_db\<lparr>customers := [sample_customer, new_customer]\<rparr> \<noteq> shop_db"
  proof
    assume "shop_db\<lparr>customers := [sample_customer, new_customer]\<rparr> = shop_db"
    then have "customers (shop_db\<lparr>customers := [sample_customer, new_customer]\<rparr>) = customers shop_db"
      by simp
    then show False by (simp add: shop_db_def)
  qed
  moreover have "customers (shop_db\<lparr>customers := [sample_customer, new_customer]\<rparr>)
                   = customers shop_db @ [new_customer]"
    by (simp add: shop_db_def)
  ultimately show ?thesis
    unfolding sample_checkout_empty_cart by simp
qed

text \<open>
  Claim C5, amended. A request in which \<open>items\<close>, \<open>customerInfo\<close>, \<open>bookingDate\<close> or
  \<open>serviceType\<close> is absent, or whose service type is delivery while the delivery address
  is absent or has no street or no area, is rejected with a validation error and the
  database is unchanged; and whenever the response is a validation error the database is
  unchanged.
\<close>

theorem checkout_structural_validation:
  "(items data = None \<or> customerInfo data = None \<or> bookingDate data = NoDate \<or> serviceType data = None
      \<longrightarrow> checkout run db data = (MissingCheckoutInformation, db)) \<and>
   (items data \<noteq> None \<and> customerInfo data \<noteq> None \<and> bookingDate data \<noteq> NoDate \<and>
    serviceType data = Some delivery \<and>
    (deliveryAddress data = None \<or>
     (\<exists>a. deliveryAddress data = Some a \<and> (street a = [] \<or> area a = [])))
      \<longrightarrow> checkout run db data = (MissingDeliveryAddress, db)) \<and>
   error_class MissingCheckoutInformation = Some ValidationError \<and>
   error_class MissingDeliveryAddress = Some ValidationError \<and>
   (error_class (fst (checkout run db data)) = Some ValidationError \<longrightarrow> snd (checkout run db data) = db)"
proof (intro conjI impI)
  assume "items data = None \<or> customerInfo data = None \<or> bookingDate data = NoDate \<or> serviceType data = None"
  then show "checkout run db data = (MissingCheckoutInformation, db)"
    by (auto simp: checkout_def split: option.splits)
next
  assume "items data \<noteq> None \<and> customerInfo data \<noteq> None \<and> bookingDate data \<noteq> NoDate \<and>
    serviceType data = Some delivery \<and>
    (deliveryAddress data = None \<or>
     (\<exists>a. deliveryAddress data = Some a \<and> (street a = [] \<or> area a = [])))"
  then show "checkout run db data = (MissingDeliveryAddress, db)"
    by (auto simp: checkout_def split: option.splits)
next
  assume ve: "error_class (fst (checkout run db data)) = Some ValidationError"
  show "snd (checkout run db data) = db"
  proof (cases "passes_validation data")
    case False
    then show ?thesis using checkout_invalid by blast
  next
    case True
    then obtain cart info st where v: "items data = Some cart" "customerInfo data = Some info"
      "serviceType data = Some st"
      and eq: "checkout run db data =
       (case resolve_customer run db info st (deliveryAddress data) of
          Inl err \<Rightarrow> (err, db)
        | Inr (customer, isNewCustomer, db1) \<Rightarrow>
            (case process_items run db1 cart [] 0 of
               Inl err \<Rightarrow> (err, db1)
             | Inr (orderItems, calculatedTotal) \<Rightarrow>
                 if booking_too_soon (bookingDate data) (clock_booking run)
                 then (BookingTooSoon, db1)
                 else create_order run db1 data info st customer isNewCustomer
                        orderItems calculatedTotal))"
      by (rule checkout_valid)
    show ?thesis
    proof (cases "resolve_customer run db info st (deliveryAddress data)")
      case (Inl err)
      then show ?thesis using eq by simp
    next
      case (Inr r)
      then obtain cu n db1 where r: "resolve_customer run db info st (deliveryAddress data) = Inr (cu, n, db1)"
        by (cases r) auto
      show ?thesis
      proof (cases "process_items run db1 cart [] 0")
        case (Inl err)
        have "error_class err \<noteq> Some ValidationError"
          using process_items_error_class[OF Inl] by auto
        then show ?thesis using ve eq r Inl by simp
      next
        case (Inr pr)
        then obtain ls sm where p: "process_items run db1 cart [] 0 = Inr (ls, sm)" by (cases pr) auto
        have "error_class (fst (create_order run db1 data info st cu n ls sm)) \<noteq> Some ValidationError"
          by (auto simp: create_order_def Let_def split: js_date.splits)
        then show ?thesis using ve eq r p by (auto split: if_splits)
      qed
    qed
  qed
qed simp_all

theorem checkout_structural_validation_witness:
  "checkout sample_run shop_db (sample_request\<lparr>items := None\<rparr>) = (MissingCheckoutInformation, shop_db) \<and>
   checkout sample_run shop_db (sample_request\<lparr>bookingDate := NoDate\<rparr>)
     = (MissingCheckoutInformation, shop_db) \<and>
   checkout sample_run shop_db (sample_request\<lparr>serviceType := Some delivery\<rparr>)
     = (MissingDeliveryAddress, shop_db) \<and>
   error_class (fst (checkout sample_run shop_db (sample_request\<lparr>serviceType := Some delivery\<rparr>)))
     = Some ValidationError"
  using checkout_structural_validation[of "sample_request\<lparr>items := None\<rparr>" sample_run shop_db]
        checkout_structural_validation[of "sample_request\<lparr>bookingDate := NoDate\<rparr>" sample_run shop_db]
        checkout_structural_validation[of "sample_request\<lparr>serviceType := Some delivery\<rparr>" sample_run shop_db]
  by (simp add: sample_request_def)

subsection \<open>Booking lead time\<close>

text \<open>
  Claim C3, as stated, fails: the customer of step 2 is written before the lead time is
  checked. At the sample data a request booked 23 hours ahead by a new customer is
  rejected with the scheduling error, and the customers collection has one document more.
\<close>

theorem checkout_writes_before_booking_check:
  "error_class (fst (checkout sample_run shop_db
      (sample_request\<lparr>bookingDate := Instant (23 * 3600 * 1000), customerInfo := Some new_info\<rparr>)))
     = Some SchedulingError \<and>
   customers (snd (checkout sample_run shop_db
      (sample_request\<lparr>bookingDate := Instant (23 * 3600 * 1000), customerInfo := Some new_info\<rparr>)))
     = customers shop_db @ [new_customer] \<and>
   snd (checkout sample_run shop_db
      (sample_request\<lparr>bookingDate := Instant (23 * 3600 * 1000), customerInfo := Some new_info\<rparr>))
     \<noteq> shop_db"
proof -
  have "shop_db\<lparr>customers := [sample_customer, new_customer]\<rparr> \<noteq> shop_db"
  proof
    assume "shop_db\<lparr>customers := [sample_customer, new_customer]\<rparr> = shop_db"
    then have "customers (shop_db\<lparr>customers := [sample_customer, new_customer]\<rparr>) = customers shop_db"
      by simp
    then show False by (simp add: shop_db_def)
  qed
  moreover have "customers (shop_db\<lparr>customers := [sample_customer, new_customer]\<rparr>)
                   = customers shop_db @ [new_customer]"
    by (simp add: shop_db_def)
  ultimately show ?thesis
    unfolding sample_checkout_too_soon by simp
qed

text \<open>
  Claim C3, amended. A checkout request is rejected with the scheduling error exactly when
  it passes steps 1 to 3 (validation, customer resolution, line re-pricing) and its booking
  date is less than 24 hours after the clock reading of the handler. At this rejection no
  order has been created, no product has changed and the counters and the last order date
  of every customer are as before; the database is the one step 2 left, with the customer
  of the request created or its contact fields updated.
\<close>

theorem checkout_booking_lead_time:
  "(error_class (fst (checkout run db data)) = Some SchedulingError \<longleftrightarrow>
      reaches_booking_check run db data \<and>
      (\<exists>t. bookingDate data = Instant t \<and> t - clock_booking run < 24 * 3600 * 1000)) \<and>
   (error_class (fst (checkout run db data)) = Some SchedulingError \<longrightarrow>
      orders (snd (checkout run db data)) = orders db \<and>
      products (snd (checkout run db data)) = products db \<and>
      (\<forall>e. stored_counters (snd (checkout run db data)) e = stored_counters db e \<and>
           stored_lastOrderDate (snd (checkout run db data)) e = stored_lastOrderDate db e) \<and>
      (\<exists>info st c isNew. customerInfo data = Some info \<and> serviceType data = Some st \<and>
         resolve_customer run db info st (deliveryAddress data)
           = Inr (c, isNew, snd (checkout run db data))))"
proof (cases "passes_validation data")
  case False
  then show ?thesis
    using checkout_invalid[of data run db] by (simp add: reaches_booking_check_def)
next
  case True
  then obtain cart info st where v: "items data = Some cart" "customerInfo data = Some info"
    "serviceType data = Some st"
    and eq: "checkout run db data =
       (case resolve_customer run db info st (deliveryAddress data) of
          Inl err \<Rightarrow> (err, db)
        | Inr (customer, isNewCustomer, db1) \<Rightarrow>
            (case process_items run db1 cart [] 0 of
               Inl err \<Rightarrow> (err, db1)
             | Inr (orderItems, calculatedTotal) \<Rightarrow>
                 if booking_too_soon (bookingDate data) (clock_booking run)
                 then (BookingTooSoon, db1)
                 else create_order run db1 data info st customer isNewCustomer
                        orderItems calculatedTotal))"
    by (rule checkout_valid)
  show ?thesis
  proof (cases "resolve_customer run db info st (deliveryAddress data)")
    case (Inl err)
    then show ?thesis
      using eq v True resolve_customer_error_class[OF Inl]
      by (simp add: reaches_booking_check_def)
  next
    case (Inr r)
    then obtain cu n db1 where r: "resolve_customer run db info st (deliveryAddress data) = Inr (cu, n, db1)"
      by (cases r) auto
    note fr = resolve_customer_frame[OF r] resolve_customer_counters[OF r]
    show ?thesis
    proof (cases "process_items run db1 cart [] 0")
      case (Inl err)
      then show ?thesis
        using eq v True r process_items_error_class[OF Inl]
        by (auto simp: reaches_booking_check_def)
    next
      case (Inr pr)
      then obtain ls sm where p: "process_items run db1 cart [] 0 = Inr (ls, sm)" by (cases pr) auto
      have reach: "reaches_booking_check run db data"
        using True v r p by (simp add: reaches_booking_check_def)
      show ?thesis
      proof (cases "booking_too_soon (bookingDate data) (clock_booking run)")
        case True
        then have res: "checkout run db data = (BookingTooSoon, db1)" using eq r p by simp
        from True have "\<exists>t. bookingDate data = Instant t \<and> t - clock_booking run < 24 * 3600 * 1000"
          by (simp add: booking_too_soon_iff)
        then show ?thesis using res reach fr v r by simp
      next
        case False
        then have res: "checkout run db data = create_order run db1 data info st cu n ls sm"
          using eq r p by simp
        have "error_class (fst (create_order run db1 data info st cu n ls sm)) \<noteq> Some SchedulingError"
          by (auto simp: create_order_def Let_def split: js_date.splits)
        moreover from False have "\<not> (\<exists>t. bookingDate data = Instant t \<and> t - clock_booking run < 24 * 3600 * 1000)"
          by (simp add: booking_too_soon_iff)
        ultimately show ?thesis using res by simp
      qed
    qed
  qed
qed

theorem checkout_booking_lead_time_witness:
  "reaches_booking_check sample_run shop_db sample_request \<and>
   clock_booking sample_run = 0 \<and>
   error_class (fst (checkout sample_run shop_db
      (sample_request\<lparr>bookingDate := Instant (23 * 3600 * 1000)\<rparr>))) = Some SchedulingError \<and>
   orders (snd (checkout sample_run shop_db
      (sample_request\<lparr>bookingDate := Instant (23 * 3600 * 1000)\<rparr>))) = orders shop_db \<and>
   error_class (fst (checkout sample_run shop_db
      (sample_request\<lparr>bookingDate := Instant (25 * 3600 * 1000)\<rparr>))) = None"
proof -
  let ?early = "sample_request\<lparr>bookingDate := Instant (23 * 3600 * 1000)\<rparr>"
  let ?late = "sample_request\<lparr>bookingDate := Instant (25 * 3600 * 1000)\<rparr>"
  have r0: "reaches_booking_check sample_run shop_db sample_request"
    by (simp add: reaches_booking_check_def passes_validation_def handler_defs sample_defs Let_def)
  have r1: "reaches_booking_check sample_run shop_db ?early"
    by (simp add: reaches_booking_check_def passes_validation_def handler_defs sample_defs Let_def)
  have b1: "\<exists>t. bookingDate ?early = Instant t \<and> t - clock_booking sample_run < 24 * 3600 * 1000"
    by (simp add: sample_run_def)
  have late: "?late = sample_request" by (simp add: sample_request_def)
  have ok: "error_class (fst (checkout sample_run shop_db ?late)) = None"
    unfolding late by (simp add: sample_checkout)
  show ?thesis
    using r0 r1 b1 ok checkout_booking_lead_time[of sample_run shop_db ?early]
    by (simp add: sample_run_def)
qed

subsection \<open>Unknown items\<close>




subsection \<open>Customer aggregates\<close>

lemma checkout_success_customer:
  assumes "checkout run db data = (CheckoutSuccess ord c isNew token, db')"
  shows "\<exists>info c'. customerInfo data = Some info \<and>
           stored_customer db' (info_email info) = Some c' \<and>
           customer_id c' = order_customer ord \<and>
           totalOrders c' = Some (stored_totalOrders db (info_email info) + 1) \<and>
           totalSpent c' = Some (stored_totalSpent db (info_email info) + totalAmount ord) \<and>
           loyaltyPoints c' =
             Some (stored_loyaltyPoints db (info_email info) + of_int \<lfloor>totalAmount ord\<rfloor>) \<and>
           lastOrderDate c' = Some (clock_stats run) \<and>
           products db' = products db"
proof -
  have pv: "passes_validation data"
    using assms checkout_invalid[of data run db] by (cases "passes_validation data") auto
  then obtain cart info st where v: "items data = Some cart" "customerInfo data = Some info"
    "serviceType data = Some st"
    and eq: "checkout run db data =
       (case resolve_customer run db info st (deliveryAddress data) of
          Inl err \<Rightarrow> (err, db)
        | Inr (customer, isNewCustomer, db1) \<Rightarrow>
            (case process_items run db1 cart [] 0 of
               Inl err \<Rightarrow> (err, db1)
             | Inr (orderItems, calculatedTotal) \<Rightarrow>
                 if booking_too_soon (bookingDate data) (clock_booking run)
                 then (BookingTooSoon, db1)
                 else create_order run db1 data info st customer isNewCustomer
                        orderItems calculatedTotal))"
    by (rule checkout_valid)
  from assms eq obtain cu n db1 where r: "resolve_customer run db info st (deliveryAddress data) = Inr (cu, n, db1)"
    by (cases "resolve_customer run db info st (deliveryAddress data)")
       (auto dest: resolve_customer_error_class)
  from assms eq r obtain ls sm where p: "process_items run db1 cart [] 0 = Inr (ls, sm)"
    by (cases "process_items run db1 cart [] 0") (auto dest: process_items_error_class)
  from assms eq r p have co: "create_order run db1 data info st cu n ls sm
                                = (CheckoutSuccess ord c isNew token, db')"
    by (auto split: if_splits)
  note cs = create_order_success[OF co]
  note rs = resolve_customer_stored[OF r]
  note fr = resolve_customer_frame[OF r]
  define stats where "stats = (\<lambda>d::Customer. d\<lparr>totalOrders := Some (or0 (totalOrders cu) + 1),
                         totalSpent := Some (or0 (totalSpent cu) + sm),
                         lastOrderDate := Some (clock_stats run),
                         loyaltyPoints := Some (or0 (loyaltyPoints cu) + of_int \<lfloor>sm\<rfloor>)\<rparr>)"
  have db': "db' = update_customer (customer_id cu) stats (db1\<lparr>orders := orders db1 @ [ord]\<rparr>)"
    using cs by (simp add: stats_def)
  have se: "\<And>x. email (stats x) = email x" by (simp add: stats_def)
  have st': "stored_customer db' (info_email info) = Some (stats cu)"
    unfolding db' using rs by (simp add: stored_customer_update[OF se])
  have before: "stored_totalOrders db (info_email info) = or0 (totalOrders cu)"
               "stored_totalSpent db (info_email info) = or0 (totalSpent cu)"
               "stored_loyaltyPoints db (info_email info) = or0 (loyaltyPoints cu)"
    using rs
    by (auto simp: stored_projections stored_counters_def aggregates_def split: option.splits)
  have pr: "products db' = products db"
    unfolding db' using fr by (simp add: update_customer_def)
  show ?thesis
  proof (intro exI[of _ info] exI[of _ "stats cu"] conjI)
    show "customerInfo data = Some info" by (rule v)
    show "stored_customer db' (info_email info) = Some (stats cu)" by (rule st')
    show "customer_id (stats cu) = order_customer ord" using cs by (simp add: stats_def)
    show "totalOrders (stats cu) = Some (stored_totalOrders db (info_email info) + 1)"
      using before by (simp add: stats_def)
    show "totalSpent (stats cu) = Some (stored_totalSpent db (info_email info) + totalAmount ord)"
      using before cs by (simp add: stats_def)
    show "loyaltyPoints (stats cu) =
             Some (stored_loyaltyPoints db (info_email info) + of_int \<lfloor>totalAmount ord\<rfloor>)"
      using before cs by (simp add: stats_def)
    show "lastOrderDate (stats cu) = Some (clock_stats run)" by (simp add: stats_def)
    show "products db' = products db" by (rule pr)
  qed
qed

lemma checkout_counters_step:
  assumes "request_email data = Some e"
  shows "stored_totalOrders (snd (checkout run db data)) e
           = stored_totalOrders db e + (if succeeded (fst (checkout run db data)) then 1 else 0) \<and>
         stored_totalSpent (snd (checkout run db data)) e
           = stored_totalSpent db e + order_total (fst (checkout run db data)) \<and>
         stored_loyaltyPoints (snd (checkout run db data)) e
           = stored_loyaltyPoints db e + points_awarded (fst (checkout run db data)) \<and>
         products (snd (checkout run db data)) = products db"
proof (cases "fst (checkout run db data)")
  case (CheckoutSuccess ord c isNew token)
  then have eq: "checkout run db data = (CheckoutSuccess ord c isNew token, snd (checkout run db data))"
    by (metis prod.collapse)
  from checkout_success_customer[OF eq] assms
  obtain c' where c': "stored_customer (snd (checkout run db data)) e = Some c'"
           "totalOrders c' = Some (stored_totalOrders db e + 1)"
           "totalSpent c' = Some (stored_totalSpent db e + totalAmount ord)"
           "loyaltyPoints c' = Some (stored_loyaltyPoints db e + of_int \<lfloor>totalAmount ord\<rfloor>)"
           "products (snd (checkout run db data)) = products db"
    by (auto simp: request_email_def)
  then show ?thesis using CheckoutSuccess
    by (simp add: stored_projections stored_counters_def)
qed (use checkout_failure_frame[of run db data] in \<open>simp_all add: stored_projections\<close>)

lemma checkouts_counters:
  assumes "\<forall>step \<in> set steps. request_email (snd step) = Some e"
  shows "stored_totalOrders (snd (checkouts db steps)) e
           = stored_totalOrders db e + real (length (filter succeeded (fst (checkouts db steps)))) \<and>
         stored_totalSpent (snd (checkouts db steps)) e
           = stored_totalSpent db e + sum_list (map order_total (fst (checkouts db steps))) \<and>
         stored_loyaltyPoints (snd (checkouts db steps)) e
           = stored_loyaltyPoints db e + sum_list (map points_awarded (fst (checkouts db steps))) \<and>
         products (snd (checkouts db steps)) = products db"
  using assms
proof (induction steps arbitrary: db)
  case Nil
  then show ?case by simp
next
  case (Cons step rest)
  obtain r db1 where s1: "checkout (fst step) db (snd step) = (r, db1)" by (cases "checkout (fst step) db (snd step)")
  obtain rs db2 where s2: "checkouts db1 rest = (rs, db2)" by (cases "checkouts db1 rest")
  have e1: "request_email (snd step) = Some e" using Cons.prems by simp
  from checkout_counters_step[OF e1, of "fst step" db] s1
  have a: "stored_totalOrders db1 e = stored_totalOrders db e + (if succeeded r then 1 else 0)"
          "stored_totalSpent db1 e = stored_totalSpent db e + order_total r"
          "stored_loyaltyPoints db1 e = stored_loyaltyPoints db e + points_awarded r"
          "products db1 = products db"
    by simp_all
  have "\<forall>step \<in> set rest. request_email (snd step) = Some e" using Cons.prems by simp
  from Cons.IH[OF this, of db1] s2
  have b: "stored_totalOrders db2 e = stored_totalOrders db1 e + real (length (filter succeeded rs))"
          "stored_totalSpent db2 e = stored_totalSpent db1 e + sum_list (map order_total rs)"
          "stored_loyaltyPoints db2 e = stored_loyaltyPoints db1 e + sum_list (map points_awarded rs)"
          "products db2 = products db1"
    by simp_all
  show ?case using a b s1 s2 by simp
qed

lemma list_all2_right_member:
  assumes "list_all2 P xs ys" and "y \<in> set ys"
  shows "\<exists>x \<in> set xs. P x y"
  using assms by (induction rule: list_all2_induct) auto

lemma find_Some_member: "find P xs = Some x \<Longrightarrow> x \<in> set xs"
  by (auto simp: find_Some_iff)

lemma checkout_total_nonneg:
  assumes "checkout run db data = (CheckoutSuccess ord c isNew token, db')"
    and "list_all (\<lambda>p. 0 \<le> price p) (products db)"
  shows "0 \<le> totalAmount ord"
proof -
  from checkout_success_order[OF assms(1)] obtain cart where
    all: "items data = Some cart \<and>
           list_all2 (\<lambda>item l. \<exists>p. find (\<lambda>p. item_id p = cart_id item) (products db) = Some p \<and>
                         foodItem l = item_id p \<and> unit_price l = price p \<and>
                         quantity l = cart_quantity item \<and>
                         subtotal l = price p * cart_quantity item) cart (order_items ord) \<and>
           totalAmount ord = sum_list (map subtotal (order_items ord)) \<and>
           orders db' = orders db @ [ord] \<and> Orders_validate ord" ..
  note la = all[THEN conjunct2, THEN conjunct1]
  note tot = all[THEN conjunct2, THEN conjunct2, THEN conjunct1]
  note val = all[THEN conjunct2, THEN conjunct2, THEN conjunct2, THEN conjunct2]
  have "0 \<le> subtotal l" if l: "l \<in> set (order_items ord)" for l
  proof -
    from list_all2_right_member[OF la l] obtain item where
      "item \<in> set cart" and
      ex: "\<exists>p. find (\<lambda>p. item_id p = cart_id item) (products db) = Some p \<and>
           foodItem l = item_id p \<and> unit_price l = price p \<and>
           quantity l = cart_quantity item \<and> subtotal l = price p * cart_quantity item" ..
    from ex obtain p where
      pp: "find (\<lambda>p. item_id p = cart_id item) (products db) = Some p \<and>
           foodItem l = item_id p \<and> unit_price l = price p \<and>
           quantity l = cart_quantity item \<and> subtotal l = price p * cart_quantity item" ..
    then have p: "find (\<lambda>p. item_id p = cart_id item) (products db) = Some p"
         "quantity l = cart_quantity item" "subtotal l = price p * cart_quantity item"
      by simp_all
    have "0 \<le> price p" using find_Some_member[OF p(1)] assms(2) by (simp add: list_all_iff)
    moreover have "1 \<le> quantity l" using val l by (simp add: Orders_validate_def list_all_iff)
    ultimately show ?thesis using p by simp
  qed
  then have "0 \<le> sum_list (map subtotal (order_items ord))"
    by (intro sum_list_nonneg) auto
  then show ?thesis using tot by simp
qed

lemma checkout_awards_nonneg:
  assumes "list_all (\<lambda>p. 0 \<le> price p) (products db)"
  shows "0 \<le> order_total (fst (checkout run db data)) \<and>
         0 \<le> points_awarded (fst (checkout run db data))"
proof (cases "fst (checkout run db data)")
  case (CheckoutSuccess ord c isNew token)
  then have eq: "checkout run db data = (CheckoutSuccess ord c isNew token, snd (checkout run db data))"
    by (metis prod.collapse)
  from checkout_total_nonneg[OF eq assms] show ?thesis using CheckoutSuccess by simp
qed simp_all

lemma checkouts_awards_nonneg:
  assumes "list_all (\<lambda>p. 0 \<le> price p) (products db)"
    and "\<forall>step \<in> set steps. request_email (snd step) = Some e"
  shows "0 \<le> sum_list (map order_total (fst (checkouts db steps))) \<and>
         0 \<le> sum_list (map points_awarded (fst (checkouts db steps)))"
  using assms
proof (induction steps arbitrary: db)
  case Nil
  then show ?case by simp
next
  case (Cons step rest)
  obtain r db1 where s1: "checkout (fst step) db (snd step) = (r, db1)" by (cases "checkout (fst step) db (snd step)")
  obtain rs db2 where s2: "checkouts db1 rest = (rs, db2)" by (cases "checkouts db1 rest")
  have e1: "request_email (snd step) = Some e" using Cons.prems by simp
  have "products db1 = products db"
    using checkout_counters_step[OF e1, of "fst step" db] s1 by simp
  then have p1: "list_all (\<lambda>p. 0 \<le> price p) (products db1)" using Cons.prems by simp
  have "\<forall>step \<in> set rest. request_email (snd step) = Some e" using Cons.prems by simp
  from Cons.IH[OF p1 this] s2
  have b: "0 \<le> sum_list (map order_total rs)" "0 \<le> sum_list (map points_awarded rs)" by simp_all
  from checkout_awards_nonneg[OF Cons.prems(1), of "fst step" "snd step"] s1
  have a: "0 \<le> order_total r" "0 \<le> points_awarded r" by simp_all
  show ?case using a b s1 s2 by simp
qed

text \<open>
  Claim C6. After a successful checkout the customer of the request (the document stored
  for its email, which is the customer of the order) has \<open>totalOrders\<close> one higher than
  before, \<open>totalSpent\<close> higher by the total of the order, \<open>loyaltyPoints\<close> higher by the
  floor of that total, and \<open>lastOrderDate\<close> equal to the clock reading of the update. Over
  a sequence of checkouts of one customer the counters grow by the number of successful
  checkouts, the sum of their totals and the sum of the floors of their totals (a failed
  checkout leaves them alone); when no product has a negative price they never decrease.
\<close>

theorem customer_aggregates_updated_once:
  "(checkout run db data = (CheckoutSuccess ord c isNew token, db') \<longrightarrow>
      (\<exists>info c'. customerInfo data = Some info \<and>
           stored_customer db' (info_email info) = Some c' \<and>
           customer_id c' = order_customer ord \<and>
           totalOrders c' = Some (stored_totalOrders db (info_email info) + 1) \<and>
           totalSpent c' = Some (stored_totalSpent db (info_email info) + totalAmount ord) \<and>
           loyaltyPoints c' =
             Some (stored_loyaltyPoints db (info_email info) + of_int \<lfloor>totalAmount ord\<rfloor>) \<and>
           lastOrderDate c' = Some (clock_stats run))) \<and>
   ((\<forall>step \<in> set steps. request_email (snd step) = Some e) \<longrightarrow>
      stored_totalOrders (snd (checkouts db0 steps)) e
        = stored_totalOrders db0 e + real (length (filter succeeded (fst (checkouts db0 steps)))) \<and>
      stored_totalSpent (snd (checkouts db0 steps)) e
        = stored_totalSpent db0 e + sum_list (map order_total (fst (checkouts db0 steps))) \<and>
      stored_loyaltyPoints (snd (checkouts db0 steps)) e
        = stored_loyaltyPoints db0 e + sum_list (map points_awarded (fst (checkouts db0 steps)))) \<and>
   ((\<forall>step \<in> set steps. request_email (snd step) = Some e) \<and>
    list_all (\<lambda>p. 0 \<le> price p) (products db0) \<longrightarrow>
      stored_totalOrders db0 e \<le> stored_totalOrders (snd (checkouts db0 steps)) e \<and>
      stored_totalSpent db0 e \<le> stored_totalSpent (snd (checkouts db0 steps)) e \<and>
      stored_loyaltyPoints db0 e \<le> stored_loyaltyPoints (snd (checkouts db0 steps)) e)"
proof (intro conjI impI)
  assume "checkout run db data = (CheckoutSuccess ord c isNew token, db')"
  from checkout_success_customer[OF this]
  show "\<exists>info c'. customerInfo data = Some info \<and>
           stored_customer db' (info_email info) = Some c' \<and>
           customer_id c' = order_customer ord \<and>
           totalOrders c' = Some (stored_totalOrders db (info_email info) + 1) \<and>
           totalSpent c' = Some (stored_totalSpent db (info_email info) + totalAmount ord) \<and>
           loyaltyPoints c' =
             Some (stored_loyaltyPoints db (info_email info) + of_int \<lfloor>totalAmount ord\<rfloor>) \<and>
           lastOrderDate c' = Some (clock_stats run)"
    by blast
next
  assume a: "\<forall>step \<in> set steps. request_email (snd step) = Some e"
  from checkouts_counters[OF a, of db0]
  show "stored_totalOrders (snd (checkouts db0 steps)) e
        = stored_totalOrders db0 e + real (length (filter succeeded (fst (checkouts db0 steps))))"
    and "stored_totalSpent (snd (checkouts db0 steps)) e
        = stored_totalSpent db0 e + sum_list (map order_total (fst (checkouts db0 steps)))"
    and "stored_loyaltyPoints (snd (checkouts db0 steps)) e
        = stored_loyaltyPoints db0 e + sum_list (map points_awarded (fst (checkouts db0 steps)))"
    by simp_all
next
  assume a: "(\<forall>step \<in> set steps. request_email (snd step) = Some e) \<and>
    list_all (\<lambda>p. 0 \<le> price p) (products db0)"
  then have a1: "\<forall>step \<in> set steps. request_email (snd step) = Some e"
    and a2: "list_all (\<lambda>p. 0 \<le> price p) (products db0)" by simp_all
  note c = checkouts_counters[OF a1, of db0]
  note n = checkouts_awards_nonneg[OF a2 a1]
  show "stored_totalOrders db0 e \<le> stored_totalOrders (snd (checkouts db0 steps)) e"
    using c by simp
  show "stored_totalSpent db0 e \<le> stored_totalSpent (snd (checkouts db0 steps)) e"
    using c n by simp
  show "stored_loyaltyPoints db0 e \<le> stored_loyaltyPoints (snd (checkouts db0 steps)) e"
    using c n by simp
qed

theorem customer_aggregates_updated_once_witness:
  "stored_totalOrders shop_db ''new@example.om'' = 0 \<and>
   stored_totalOrders (snd (checkouts shop_db two_checkouts)) ''new@example.om'' = 2 \<and>
   stored_totalSpent (snd (checkouts shop_db two_checkouts)) ''new@example.om'' = 55 \<and>
   stored_loyaltyPoints (snd (checkouts shop_db two_checkouts)) ''new@example.om'' = 54 \<and>
   stored_totalOrders shop_db ''aisha@example.om'' = 3 \<and>
   (\<exists>c'. stored_customer (snd (checkout sample_run shop_db sample_request)) ''aisha@example.om'' = Some c' \<and>
      totalOrders c' = Some 4 \<and> totalSpent c' = Some (135 / 2) \<and> loyaltyPoints c' = Some 65 \<and>
      lastOrderDate c' = Some 5)"
proof -
  have e: "\<forall>step \<in> set two_checkouts. request_email (snd step) = Some ''new@example.om''"
    by (simp add: two_checkouts_def new_request_def request_email_def new_info_def sample_info_def
          sample_request_def)
  have p: "list_all (\<lambda>p. 0 \<le> price p) (products shop_db)"
    by (simp add: shop_db_def offer_item_def)
  have z: "stored_totalOrders shop_db ''new@example.om'' = 0"
          "stored_totalSpent shop_db ''new@example.om'' = 0"
          "stored_loyaltyPoints shop_db ''new@example.om'' = 0"
    by (simp_all add: stored_projections stored_counters_def stored_customer_def
          find_customers_by_email_def shop_db_def sample_customer_def)
  have a: "stored_totalOrders shop_db ''aisha@example.om'' = 3"
          "stored_totalSpent shop_db ''aisha@example.om'' = 40"
          "stored_loyaltyPoints shop_db ''aisha@example.om'' = 38"
    by (simp_all add: stored_projections stored_counters_def stored_customer_def
          find_customers_by_email_def shop_db_def sample_customer_def)
  have n: "length (filter succeeded (fst (checkouts shop_db two_checkouts))) = 2"
          "sum_list (map order_total (fst (checkouts shop_db two_checkouts))) = 55"
          "sum_list (map points_awarded (fst (checkouts shop_db two_checkouts))) = 54"
    using two_checkouts_responses
    by (auto simp: map_eq_Cons_conv)
  have i: "info_email sample_info = ''aisha@example.om''" "customerInfo sample_request = Some sample_info"
          "totalAmount created_order = 55 / 2" "clock_stats sample_run = 5"
    by (simp_all add: sample_info_def sample_request_def created_order_def sample_run_def)
  from customer_aggregates_updated_once[of sample_run shop_db sample_request created_order
      "sample_customer\<lparr>phone := ''92345678''\<rparr>" False "Some ''token''"
      "snd (checkout sample_run shop_db sample_request)" two_checkouts "''new@example.om''" shop_db]
  show ?thesis using e p z a n i sample_checkout by auto
qed

end
